theory Spec2Isabelle
  imports Complex_Main
begin

section \<open>Numeric model\<close>

text \<open>
  The two scripts compute with Python floats and NumPy float64 values. The code is given
  two readings here.

  In the exact reading a float is a real number and arithmetic is exact. The trajectory
  loops, the resistance functions and the curve sampler are modelled in it; it says what
  the formulas compute, up to rounding.

  In the float64 reading a float is a real number that IEEE 754 binary64 can represent,
  and every operation rounds its exact result to the nearest such number, ties to even,
  with gradual underflow (\<open>f64_round\<close>). The functions whose name ends in \<open>_f64\<close>,
  and the clock of the two loops, are modelled in it; the properties that depend on
  rounding are decided there. Results beyond the largest finite float64 (infinities) are
  not modelled: the theorems of the float64 reading are stated for arguments with which no
  intermediate result leaves the finite range.

  In both readings an operation that has no real result (a division by zero, the square
  root of a negative number) is an error value, so that a function that meets one is seen
  to fail instead of returning an arbitrary number. A one-dimensional NumPy array is a
  list of reals.
\<close>

datatype py_error = ZeroDivisionError | InvalidValue | IndexError | ValueError | UnboundLocalError

type_synonym 'a result = "py_error + 'a"

definition bind_result :: "'a result \<Rightarrow> ('a \<Rightarrow> 'b result) \<Rightarrow> 'b result" where
  "bind_result m f = (case m of Inl e \<Rightarrow> Inl e | Inr v \<Rightarrow> f v)"

text \<open>\<open>a / b\<close> on floats.\<close>

definition fdiv :: "real \<Rightarrow> real \<Rightarrow> real result" where
  "fdiv a b = (if b = 0 then Inl ZeroDivisionError else Inr (a / b))"

text \<open>\<open>np.sqrt(r)\<close>.\<close>

definition np_sqrt :: "real \<Rightarrow> real result" where
  "np_sqrt r = (if r < 0 then Inl InvalidValue else Inr (sqrt r))"

text \<open>\<open>y[0]\<close> and \<open>y[0] = v\<close> on a one-dimensional array.\<close>

definition item0 :: "real list \<Rightarrow> real result" where
  "item0 y = (case y of [] \<Rightarrow> Inl IndexError | x # _ \<Rightarrow> Inr x)"

definition set_item0 :: "real list \<Rightarrow> real \<Rightarrow> real list result" where
  "set_item0 y v = (case y of [] \<Rightarrow> Inl IndexError | _ # rest \<Rightarrow> Inr (v # rest))"

text \<open>
  \<open>a + b\<close> on one-dimensional arrays, with NumPy's broadcasting of a one-element
  operand; \<open>a * c\<close> and \<open>c * a\<close> with a scalar \<open>c\<close>.
\<close>

definition np_add :: "real list \<Rightarrow> real list \<Rightarrow> real list result" where
  "np_add a b =
     (if length a = length b then Inr (map2 (+) a b)
      else if length b = 1 then Inr (map (\<lambda>u. u + hd b) a)
      else if length a = 1 then Inr (map (\<lambda>v. hd a + v) b)
      else Inl ValueError)"

definition np_scale :: "real \<Rightarrow> real list \<Rightarrow> real list" where
  "np_scale c a = map (\<lambda>u. u * c) a"

text \<open>\<open>a / c\<close> with a non-zero literal \<open>c\<close>.\<close>

definition np_divide :: "real list \<Rightarrow> real \<Rightarrow> real list" where
  "np_divide a c = map (\<lambda>u. u / c) a"

subsection \<open>Rounding to float64\<close>

text \<open>The nearest integer, a tie going to the even one.\<close>

definition round_even :: "real \<Rightarrow> int" where
  "round_even z =
     (if z - of_int \<lfloor>z\<rfloor> < 1 / 2 then \<lfloor>z\<rfloor>
      else if 1 / 2 < z - of_int \<lfloor>z\<rfloor> then \<lfloor>z\<rfloor> + 1
      else if even \<lfloor>z\<rfloor> then \<lfloor>z\<rfloor> else \<lfloor>z\<rfloor> + 1)"

text \<open>
  The binary exponent of a number, at least the smallest normal exponent \<open>-1022\<close>; a
  float64 with exponent \<open>e\<close> is a multiple of \<open>2^(e - 52)\<close>.
\<close>

definition f64_exponent :: "real \<Rightarrow> int" where
  "f64_exponent x = (if \<bar>x\<bar> < 2 powr (- 1022) then - 1022 else \<lfloor>log 2 \<bar>x\<bar>\<rfloor>)"

definition f64_round :: "real \<Rightarrow> real" where
  "f64_round x =
     of_int (round_even (x / 2 powr (of_int (f64_exponent x) - 52)))
       * 2 powr (of_int (f64_exponent x) - 52)"

text \<open>\<open>a + b\<close>, \<open>a - b\<close>, \<open>a * b\<close>, \<open>a / b\<close> and \<open>np.sqrt(r)\<close> on float64.\<close>

definition f64_add :: "real \<Rightarrow> real \<Rightarrow> real" where
  "f64_add a b = f64_round (a + b)"

definition f64_sub :: "real \<Rightarrow> real \<Rightarrow> real" where
  "f64_sub a b = f64_round (a - b)"

definition f64_mul :: "real \<Rightarrow> real \<Rightarrow> real" where
  "f64_mul a b = f64_round (a * b)"

definition f64_div :: "real \<Rightarrow> real \<Rightarrow> real result" where
  "f64_div a b = (if b = 0 then Inl ZeroDivisionError else Inr (f64_round (a / b)))"

definition f64_sqrt :: "real \<Rightarrow> real result" where
  "f64_sqrt r = (if r < 0 then Inl InvalidValue else Inr (f64_round (sqrt r)))"

text \<open>The array operations of \<open>rk4_step\<close> on float64 arrays.\<close>

definition np_add_f64 :: "real list \<Rightarrow> real list \<Rightarrow> real list result" where
  "np_add_f64 a b =
     (if length a = length b then Inr (map2 f64_add a b)
      else if length b = 1 then Inr (map (\<lambda>u. f64_add u (hd b)) a)
      else if length a = 1 then Inr (map (\<lambda>v. f64_add (hd a) v) b)
      else Inl ValueError)"

definition np_scale_f64 :: "real \<Rightarrow> real list \<Rightarrow> real list" where
  "np_scale_f64 c a = map (\<lambda>u. f64_mul u c) a"

definition np_divide_f64 :: "real list \<Rightarrow> real \<Rightarrow> real list" where
  "np_divide_f64 a c = map (\<lambda>u. f64_round (u / c)) a"

section \<open>Adwanced\_simulation.py: the RK4 trajectory integrator\<close>

definition L_P :: real where "L_P = 1"
definition K_INV :: real where "K_INV = 1"
definition DT :: real where "DT = 1 / 100"
definition TOTAL_STEPS :: nat where "TOTAL_STEPS = 3000"

text \<open>
  The body of the \<open>try\<close> block of \<open>get_resistance\<close>, and the function itself: the bare
  \<open>except\<close> turns every error of the body into the sentinel \<open>1e9\<close>.
\<close>

definition resistance_body :: "real \<Rightarrow> real result" where
  "resistance_body x =
     bind_result (fdiv L_P x) (\<lambda>q.
     bind_result (np_sqrt (1 - q ^ 2)) (\<lambda>r.
       let factor = (if r < 1 / 10 ^ 9 then 1 / 10 ^ 9 else r)
       in fdiv K_INV factor))"

definition get_resistance :: "real \<Rightarrow> real" where
  "get_resistance x =
     (if x \<le> L_P then 10 ^ 9
      else case resistance_body x of Inr v \<Rightarrow> v | Inl e \<Rightarrow> 10 ^ 9)"

definition v_base :: real where "v_base = 1 / 2"

text \<open>
  \<open>derivatives(t, y, mode)\<close>. With a mode other than the two strings neither branch
  assigns \<open>dx_dt\<close>, and the \<open>return\<close> raises UnboundLocalError.
\<close>

definition derivatives :: "real \<Rightarrow> real list \<Rightarrow> string \<Rightarrow> real list result" where
  "derivatives t y mode =
     bind_result (item0 y) (\<lambda>x.
       if mode = ''standard'' then Inr [- v_base]
       else if mode = ''itlt'' then
         bind_result (fdiv (- v_base) (get_resistance x)) (\<lambda>dx_dt. Inr [dx_dt])
       else Inl UnboundLocalError)"

definition rk4_step :: "real \<Rightarrow> real list \<Rightarrow> real \<Rightarrow> string \<Rightarrow> real list result" where
  "rk4_step t y dt mode =
     bind_result (derivatives t y mode) (\<lambda>k1.
     bind_result (np_add y (np_divide (np_scale dt k1) 2)) (\<lambda>y2.
     bind_result (derivatives (t + dt / 2) y2 mode) (\<lambda>k2.
     bind_result (np_add y (np_divide (np_scale dt k2) 2)) (\<lambda>y3.
     bind_result (derivatives (t + dt / 2) y3 mode) (\<lambda>k3.
     bind_result (np_add y (np_scale dt k3)) (\<lambda>y4.
     bind_result (derivatives (t + dt) y4 mode) (\<lambda>k4.
     bind_result (np_add k1 (np_scale 2 k2)) (\<lambda>s1.
     bind_result (np_add s1 (np_scale 2 k3)) (\<lambda>s2.
     bind_result (np_add s2 k4) (\<lambda>s3.
       np_add y (np_scale (dt / 6) s3)))))))))))"

subsection \<open>The float64 reading of the resistance and of one RK4 step\<close>

text \<open>
  The same functions with every operation rounded. The literal \<open>1e-9\<close> is the float64
  nearest to it; \<open>1e9\<close>, \<open>1.0\<close>, \<open>0.5\<close>, \<open>2\<close> and \<open>6.0\<close> are float64 numbers. The
  square \<open>(L_P / x)**2\<close> is the rounded product.
\<close>

definition resistance_body_f64 :: "real \<Rightarrow> real result" where
  "resistance_body_f64 x =
     bind_result (f64_div L_P x) (\<lambda>q.
     bind_result (f64_sqrt (f64_sub 1 (f64_mul q q))) (\<lambda>r.
       let factor = (if r < f64_round (1 / 10 ^ 9) then f64_round (1 / 10 ^ 9) else r)
       in f64_div K_INV factor))"

definition get_resistance_f64 :: "real \<Rightarrow> real" where
  "get_resistance_f64 x =
     (if x \<le> L_P then 10 ^ 9
      else case resistance_body_f64 x of Inr v \<Rightarrow> v | Inl e \<Rightarrow> 10 ^ 9)"

definition derivatives_f64 :: "real \<Rightarrow> real list \<Rightarrow> string \<Rightarrow> real list result" where
  "derivatives_f64 t y mode =
     bind_result (item0 y) (\<lambda>x.
       if mode = ''standard'' then Inr [- v_base]
       else if mode = ''itlt'' then
         bind_result (f64_div (- v_base) (get_resistance_f64 x)) (\<lambda>dx_dt. Inr [dx_dt])
       else Inl UnboundLocalError)"

definition rk4_step_f64 :: "real \<Rightarrow> real list \<Rightarrow> real \<Rightarrow> string \<Rightarrow> real list result" where
  "rk4_step_f64 t y dt mode =
     bind_result (derivatives_f64 t y mode) (\<lambda>k1.
     bind_result (np_add_f64 y (np_divide_f64 (np_scale_f64 dt k1) 2)) (\<lambda>y2.
     bind_result (derivatives_f64 (f64_add t (f64_round (dt / 2))) y2 mode) (\<lambda>k2.
     bind_result (np_add_f64 y (np_divide_f64 (np_scale_f64 dt k2) 2)) (\<lambda>y3.
     bind_result (derivatives_f64 (f64_add t (f64_round (dt / 2))) y3 mode) (\<lambda>k3.
     bind_result (np_add_f64 y (np_scale_f64 dt k3)) (\<lambda>y4.
     bind_result (derivatives_f64 (f64_add t dt) y4 mode) (\<lambda>k4.
     bind_result (np_add_f64 k1 (np_scale_f64 2 k2)) (\<lambda>s1.
     bind_result (np_add_f64 s1 (np_scale_f64 2 k3)) (\<lambda>s2.
     bind_result (np_add_f64 s2 k4) (\<lambda>s3.
       np_add_f64 y (np_scale_f64 (f64_round (dt / 6)) s3)))))))))))"

subsection \<open>The trajectory loop\<close>

text \<open>
  \<open>run_simulation\<close>: the state of the loop, one iteration, and the loop. The step size,
  the number of iterations and the start position are the constants \<open>DT\<close>,
  \<open>TOTAL_STEPS\<close> and \<open>start_x\<close> in the script; the loop is written for any values of
  them, \<open>run_simulation\<close> is the run the script makes. The positions are in the exact
  reading; the clock \<open>t\<close> is in the float64 reading: it starts at 0 and each iteration adds
  the float64 step to it and rounds.
\<close>

record sim_state =
  t_now :: real
  state_std :: "real list"
  state_itlt :: "real list"
  time_points :: "real list"
  hist_std :: "real list"
  hist_itlt :: "real list"

definition update_std :: "real \<Rightarrow> real \<Rightarrow> real list \<Rightarrow> real list result" where
  "update_std t dt y =
     bind_result (item0 y) (\<lambda>x.
       if x > 0 then
         bind_result (rk4_step t y dt ''standard'') (\<lambda>y'.
         bind_result (item0 y') (\<lambda>x'.
           if x' < 0 then set_item0 y' 0 else Inr y'))
       else set_item0 y 0)"

definition update_itlt :: "real \<Rightarrow> real \<Rightarrow> real list \<Rightarrow> real list result" where
  "update_itlt t dt y =
     bind_result (item0 y) (\<lambda>x.
       if x > L_P then
         bind_result (rk4_step t y dt ''itlt'') (\<lambda>y'.
         bind_result (item0 y') (\<lambda>x'.
           if x' < L_P then set_item0 y' L_P else Inr y'))
       else set_item0 y L_P)"

definition loop_body :: "real \<Rightarrow> sim_state \<Rightarrow> sim_state result" where
  "loop_body dt s =
     bind_result (item0 (state_std s)) (\<lambda>a.
     bind_result (item0 (state_itlt s)) (\<lambda>b.
     bind_result (update_std (t_now s) dt (state_std s)) (\<lambda>ys.
     bind_result (update_itlt (t_now s) dt (state_itlt s)) (\<lambda>yi.
       Inr \<lparr> t_now = f64_add (t_now s) (f64_round dt),
             state_std = ys,
             state_itlt = yi,
             time_points = time_points s @ [t_now s],
             hist_std = hist_std s @ [a],
             hist_itlt = hist_itlt s @ [b] \<rparr>))))"

primrec sim_loop :: "nat \<Rightarrow> real \<Rightarrow> sim_state \<Rightarrow> sim_state result" where
  "sim_loop 0 dt s = Inr s"
| "sim_loop (Suc n) dt s = bind_result (loop_body dt s) (sim_loop n dt)"

definition init_state :: "real \<Rightarrow> sim_state" where
  "init_state start_x =
     \<lparr> t_now = 0, state_std = [start_x], state_itlt = [start_x],
       time_points = [], hist_std = [], hist_itlt = [] \<rparr>"

definition simulate :: "nat \<Rightarrow> real \<Rightarrow> real \<Rightarrow> sim_state result" where
  "simulate n dt start_x = sim_loop n dt (init_state start_x)"

definition run_simulation :: "sim_state result" where
  "run_simulation = simulate TOTAL_STEPS DT 5"

section \<open>itlt\_simulation.py: the curve sampler and the Euler particle simulation\<close>

subsection \<open>The dilation curve sampler\<close>

definition l_p :: real where "l_p = 1616255 / 10 ^ 41"
definition t_p :: real where "t_p = 5391247 / 10 ^ 50"
definition k_inv :: real where "k_inv = t_p"

text \<open>A float that may be \<open>float('inf')\<close>.\<close>

datatype pyfloat = Finite real | Infinity

definition calculate_time_dilation :: "real \<Rightarrow> pyfloat result" where
  "calculate_time_dilation x_factor =
     (if x_factor \<le> 1 then Inr Infinity
      else
        bind_result (fdiv 1 x_factor) (\<lambda>q.
        bind_result (np_sqrt (1 - q ^ 2)) (\<lambda>denominator.
        bind_result (fdiv k_inv denominator) (\<lambda>v. Inr (Finite v)))))"



text \<open>
  \<open>np.linspace(start, stop, num)\<close> as NumPy documents it: \<open>num\<close> samples
  \<open>start + i * step\<close> with \<open>step = (stop - start) / (num - 1)\<close>, the last one set to
  \<open>stop\<close>.
\<close>

definition np_linspace :: "real \<Rightarrow> real \<Rightarrow> nat \<Rightarrow> real list" where
  "np_linspace start stop num =
     (let step = (stop - start) / real (num - 1);
          y = map (\<lambda>i. real i * step + start) [0..<num]
      in if num > 1 then y[num - 1 := stop] else y)"

definition x_factors :: "real list" where
  "x_factors =
     sort (np_linspace (1001 / 1000) (11 / 10) 50
           @ np_linspace (11 / 10) (5 / 2) 50
           @ np_linspace (5 / 2) 10 50)"

text \<open>A list comprehension whose body can fail stops at the first failure.\<close>

primrec map_result :: "('a \<Rightarrow> 'b result) \<Rightarrow> 'a list \<Rightarrow> 'b list result" where
  "map_result f [] = Inr []"
| "map_result f (x # xs) =
     bind_result (f x) (\<lambda>v. bind_result (map_result f xs) (\<lambda>vs. Inr (v # vs)))"

definition t_values :: "pyfloat list result" where
  "t_values = map_result calculate_time_dilation x_factors"

text \<open>\<open>t / t_p\<close>; infinity divided by the positive \<open>t_p\<close> is infinity.\<close>

definition div_t_p :: "pyfloat \<Rightarrow> pyfloat result" where
  "div_t_p t =
     (case t of
        Infinity \<Rightarrow> if t_p = 0 then Inl ZeroDivisionError else Inr Infinity
      | Finite v \<Rightarrow> bind_result (fdiv v t_p) (\<lambda>r. Inr (Finite r)))"

definition dilation_factors :: "pyfloat list result" where
  "dilation_factors = bind_result t_values (map_result div_t_p)"

text \<open>
  The rows of the exported table: distance factor, time dilation value, dilation ratio.
\<close>

definition data_rows :: "(real \<times> pyfloat \<times> pyfloat) list result" where
  "data_rows =
     bind_result t_values (\<lambda>tv.
     bind_result dilation_factors (\<lambda>df.
       Inr (zip x_factors (zip tv df))))"

subsection \<open>The particle simulation\<close>

text \<open>
  The second \<open>run_simulation\<close>, of the part of the file headed \<open>particle simulation.py\<close>;
  it is \<open>run_particle_simulation\<close> here, since the name is taken. Its constants are local
  to the function and shadow the module's Planck constants of the same names; they are
  \<open>sim_l_p\<close>, \<open>sim_k_inv\<close> and \<open>sim_dt\<close> here. As for the RK4 run, the loop is written
  for any step size, step count and start position, and \<open>run_particle_simulation\<close> is
  the run the script makes.
\<close>

definition sim_l_p :: real where "sim_l_p = 1"
definition sim_k_inv :: real where "sim_k_inv = 1"
definition sim_dt :: real where "sim_dt = 1 / 100"
definition total_steps :: nat where "total_steps = 2000"
definition start_distance :: real where "start_distance = 5"
definition v_infall :: real where "v_infall = 1 / 2"

record particle_state =
  t_cur :: real
  x_class :: real
  x_itlt :: real
  time_axis :: "real list"
  dist_classical :: "real list"
  dist_itlt :: "real list"

text \<open>The statement \<open>x_class -= v_infall * dt\<close>.\<close>

definition classical_move :: "real \<Rightarrow> real \<Rightarrow> real" where
  "classical_move dt x = x - v_infall * dt"

definition classical_update :: "real \<Rightarrow> real \<Rightarrow> real" where
  "classical_update dt x = (if x > 0 then classical_move dt x else 0)"

text \<open>The body of the \<open>try\<close> block, and the branch \<open>x_itlt > l_p\<close> around it.\<close>

definition time_resistance_body :: "real \<Rightarrow> real result" where
  "time_resistance_body x =
     bind_result (fdiv sim_l_p x) (\<lambda>q.
     bind_result (np_sqrt (1 - q ^ 2)) (\<lambda>r.
       let denominator = (if r < 1 / 10 ^ 9 then 1 / 10 ^ 9 else r)
       in fdiv sim_k_inv denominator))"

definition itlt_update :: "real \<Rightarrow> real \<Rightarrow> real result" where
  "itlt_update dt x =
     (if x > sim_l_p then
        let time_resistance =
              (case time_resistance_body x of Inr v \<Rightarrow> v | Inl e \<Rightarrow> 10 ^ 9)
        in bind_result (fdiv v_infall time_resistance) (\<lambda>v_observed.
             Inr (x - v_observed * dt))
      else Inr sim_l_p)"

text \<open>The float64 reading of the two updates.\<close>

definition classical_move_f64 :: "real \<Rightarrow> real \<Rightarrow> real" where
  "classical_move_f64 dt x = f64_sub x (f64_mul v_infall dt)"

definition time_resistance_body_f64 :: "real \<Rightarrow> real result" where
  "time_resistance_body_f64 x =
     bind_result (f64_div sim_l_p x) (\<lambda>q.
     bind_result (f64_sqrt (f64_sub 1 (f64_mul q q))) (\<lambda>r.
       let denominator = (if r < f64_round (1 / 10 ^ 9) then f64_round (1 / 10 ^ 9) else r)
       in f64_div sim_k_inv denominator))"

definition itlt_update_f64 :: "real \<Rightarrow> real \<Rightarrow> real result" where
  "itlt_update_f64 dt x =
     (if x > sim_l_p then
        let time_resistance =
              (case time_resistance_body_f64 x of Inr v \<Rightarrow> v | Inl e \<Rightarrow> 10 ^ 9)
        in bind_result (f64_div v_infall time_resistance) (\<lambda>v_observed.
             Inr (f64_sub x (f64_mul v_observed dt)))
      else Inr sim_l_p)"

definition particle_body :: "real \<Rightarrow> particle_state \<Rightarrow> particle_state result" where
  "particle_body dt s =
     bind_result (itlt_update dt (x_itlt s)) (\<lambda>xi.
       Inr \<lparr> t_cur = f64_add (t_cur s) (f64_round dt),
             x_class = classical_update dt (x_class s),
             x_itlt = xi,
             time_axis = time_axis s @ [t_cur s],
             dist_classical = dist_classical s @ [x_class s],
             dist_itlt = dist_itlt s @ [x_itlt s] \<rparr>)"

primrec particle_loop :: "nat \<Rightarrow> real \<Rightarrow> particle_state \<Rightarrow> particle_state result" where
  "particle_loop 0 dt s = Inr s"
| "particle_loop (Suc n) dt s = bind_result (particle_body dt s) (particle_loop n dt)"

definition particle_init :: "real \<Rightarrow> particle_state" where
  "particle_init x0 =
     \<lparr> t_cur = 0, x_class = x0, x_itlt = x0,
       time_axis = [], dist_classical = [], dist_itlt = [] \<rparr>"

definition particle_simulate :: "nat \<Rightarrow> real \<Rightarrow> real \<Rightarrow> particle_state result" where
  "particle_simulate n dt x0 = particle_loop n dt (particle_init x0)"

definition run_particle_simulation :: "particle_state result" where
  "run_particle_simulation = particle_simulate total_steps sim_dt start_distance"

section \<open>Definitions used in the proofs\<close>

subsection \<open>Closed forms of the update steps\<close>

text \<open>
  The functions below are not in the scripts: they name what one update of each particle
  and of the clock computes, and the lemmas that follow prove that the modelled code
  computes exactly that.
\<close>

definition root_f64 :: "real \<Rightarrow> real" where
  "root_f64 x =
     f64_round (sqrt (f64_round (1 - f64_round (f64_round (1 / x) * f64_round (1 / x)))))"


definition clock_step :: "real \<Rightarrow> real \<Rightarrow> real" where
  "clock_step dt t = f64_add t (f64_round dt)"


definition euler_itlt :: "real \<Rightarrow> real \<Rightarrow> real" where
  "euler_itlt dt x =
     (if x > sim_l_p
      then x - v_infall / (sim_k_inv / max (sqrt (1 - (sim_l_p / x) ^ 2)) (1 / 10 ^ 9)) * dt
      else sim_l_p)"



definition slope :: "real \<Rightarrow> real" where
  "slope x = - v_base / get_resistance x"

definition rk4_itlt :: "real \<Rightarrow> real \<Rightarrow> real" where
  "rk4_itlt dt x =
     (let k1 = slope x;
          k2 = slope (x + k1 * dt / 2);
          k3 = slope (x + k2 * dt / 2);
          k4 = slope (x + k3 * dt)
      in x + (k1 + k2 * 2 + k3 * 2 + k4) * (dt / 6))"

definition std_next :: "real \<Rightarrow> real \<Rightarrow> real" where
  "std_next dt x = (if x > 0 then (if x - v_base * dt < 0 then 0 else x - v_base * dt) else 0)"

definition itlt_next :: "real \<Rightarrow> real \<Rightarrow> real" where
  "itlt_next dt x = (if x > L_P then (if rk4_itlt dt x < L_P then L_P else rk4_itlt dt x) else L_P)"

subsection \<open>An enclosure of the run the particle script makes\<close>

text \<open>
  One row \<open>(L, H, c, d)\<close> of a table says that before an iteration the ITLT position \<open>x\<close>
  of the Euler script satisfies \<open>L \<le> 2^32 * x \<le> H\<close>, with \<open>c / 2^32\<close> at least \<open>1 / x\<close>
  and \<open>d / 2^32\<close> at most \<open>1 / x\<close>. The test \<open>step_ok\<close>, in integer arithmetic only,
  is enough for the next row to bound the next position in the same way.
\<close>

definition SCALE :: int where "SCALE = 4294967296"
definition SCALE2 :: int where "SCALE2 = 18446744073709551616"
definition CLAMP :: int where "CLAMP = 5"

definition step_ok :: "int \<Rightarrow> int \<Rightarrow> int \<Rightarrow> int \<Rightarrow> int \<Rightarrow> int \<Rightarrow> bool" where
  "step_ok L H c d L' H' =
     (SCALE < L \<and> L \<le> H \<and> H' \<le> H \<and> 0 \<le> d \<and> CLAMP \<le> 200 * (L - L') \<and>
      SCALE2 \<le> c * L \<and> d * H \<le> SCALE2 \<and>
      (200 * (H - H')) * (200 * (H - H')) + c * c \<le> SCALE2 \<and>
      SCALE2 \<le> (200 * (L - L')) * (200 * (L - L')) + d * d)"

fun chain_ok :: "(int \<times> int \<times> int \<times> int) list \<Rightarrow> int \<times> int \<Rightarrow> bool" where
  "chain_ok [] fin = True"
| "chain_ok [(L, H, c, d)] (L', H') = step_ok L H c d L' H'"
| "chain_ok ((L, H, c, d) # (L', H', c', d') # rest) fin =
     (step_ok L H c d L' H' \<and> chain_ok ((L', H', c', d') # rest) fin)"

definition enclosure_1 :: "(int \<times> int \<times> int \<times> int) list" where
  "enclosure_1 =
    [(21474836480, 21474836480, 858993460, 858993459), (21453795523, 21453795524, 859835923, 859835922),
     (21432755426, 21432755428, 860680007, 860680006), (21411716192, 21411716195, 861525714, 861525713),
     (21390677823, 21390677827, 862373050, 862373049), (21369640322, 21369640327, 863222020, 863222019),
     (21348603692, 21348603698, 864072627, 864072626), (21327567935, 21327567942, 864924878, 864924876),
     (21306533053, 21306533061, 865778775, 865778774), (21285499050, 21285499059, 866634324, 866634323),
     (21264465927, 21264465937, 867491530, 867491529), (21243433688, 21243433699, 868350397, 868350396),
     (21222402335, 21222402347, 869210931, 869210929), (21201371871, 21201371884, 870073135, 870073133),
     (21180342298, 21180342312, 870937014, 870937013), (21159313619, 21159313634, 871802574, 871802573),
     (21138285837, 21138285853, 872669819, 872669818), (21117258954, 21117258971, 873538754, 873538753),
     (21096232973, 21096232991, 874409384, 874409383), (21075207897, 21075207916, 875281714, 875281712),
     (21054183728, 21054183748, 876155748, 876155746), (21033160469, 21033160490, 877031491, 877031489),
     (21012138123, 21012138145, 877908948, 877908947), (20991116693, 20991116716, 878788125, 878788123),
     (20970096181, 20970096205, 879669026, 879669024), (20949076591, 20949076616, 880551656, 880551654),
     (20928057924, 20928057950, 881436020, 881436018), (20907040184, 20907040211, 882322123, 882322121),
     (20886023374, 20886023402, 883209970, 883209968), (20865007496, 20865007525, 884099567, 884099564),
     (20843992553, 20843992583, 884990917, 884990915), (20822978548, 20822978579, 885884027, 885884024),
     (20801965484, 20801965516, 886778901, 886778898), (20780953364, 20780953397, 887675544, 887675542),
     (20759942190, 20759942224, 888573962, 888573960), (20738931966, 20738932001, 889474160, 889474157),
     (20717922694, 20717922730, 890376142, 890376140), (20696914377, 20696914414, 891279915, 891279912),
     (20675907018, 20675907056, 892185483, 892185480), (20654900620, 20654900659, 893092851, 893092848),
     (20633895186, 20633895226, 894002025, 894002022), (20612890719, 20612890760, 894913010, 894913008),
     (20591887222, 20591887264, 895825812, 895825809), (20570884698, 20570884741, 896740435, 896740432),
     (20549883150, 20549883194, 897656884, 897656882), (20528882580, 20528882625, 898575167, 898575164),
     (20507882992, 20507883038, 899495286, 899495283), (20486884389, 20486884436, 900417249, 900417246),
     (20465886774, 20465886822, 901341060, 901341057), (20444890150, 20444890199, 902266725, 902266722),
     (20423894520, 20423894570, 903194250, 903194246), (20402899887, 20402899938, 904123639, 904123635),
     (20381906254, 20381906306, 905054898, 905054895), (20360913624, 20360913677, 905988033, 905988030),
     (20339922000, 20339922054, 906923049, 906923046), (20318931386, 20318931441, 907859953, 907859949),
     (20297941784, 20297941840, 908798748, 908798745), (20276953198, 20276953255, 909739442, 909739438),
     (20255965631, 20255965689, 910682039, 910682035), (20234979086, 20234979145, 911626546, 911626542),
     (20213993566, 20213993626, 912572967, 912572963), (20193009074, 20193009135, 913521309, 913521305),
     (20172025614, 20172025676, 914471577, 914471574), (20151043189, 20151043252, 915423778, 915423774),
     (20130061802, 20130061866, 916377916, 916377912), (20109081456, 20109081521, 917333998, 917333994),
     (20088102155, 20088102221, 918292029, 918292025), (20067123902, 20067123969, 919252015, 919252011),
     (20046146700, 20046146768, 920213962, 920213958), (20025170552, 20025170621, 921177876, 921177872),
     (20004195462, 20004195532, 922143763, 922143759), (19983221433, 19983221504, 923111629, 923111624),
     (19962248468, 19962248540, 924081479, 924081474), (19941276571, 19941276644, 925053319, 925053315),
     (19920305745, 19920305819, 926027156, 926027152), (19899335994, 19899336069, 927002996, 927002991),
     (19878367321, 19878367397, 927980844, 927980839), (19857399729, 19857399806, 928960707, 928960702),
     (19836433222, 19836433300, 929942590, 929942585), (19815467803, 19815467882, 930926500, 930926495),
     (19794503476, 19794503556, 931912443, 931912438), (19773540244, 19773540325, 932900424, 932900419),
     (19752578110, 19752578192, 933890451, 933890446), (19731617079, 19731617162, 934882529, 934882524),
     (19710657153, 19710657237, 935876665, 935876660), (19689698336, 19689698421, 936872865, 936872860),
     (19668740632, 19668740718, 937871134, 937871129), (19647784044, 19647784131, 938871480, 938871475),
     (19626828576, 19626828664, 939873908, 939873903), (19605874232, 19605874321, 940878426, 940878421),
     (19584921015, 19584921105, 941885038, 941885033), (19563968928, 19563969019, 942893753, 942893747),
     (19543017976, 19543018068, 943904575, 943904570), (19522068162, 19522068255, 944917512, 944917507),
     (19501119489, 19501119583, 945932570, 945932565), (19480171961, 19480172056, 946949756, 946949750),
     (19459225582, 19459225678, 947969075, 947969070), (19438280356, 19438280453, 948990535, 948990530),
     (19417336286, 19417336385, 950014143, 950014137), (19396393377, 19396393477, 951039903, 951039897),
     (19375451632, 19375451733, 952067824, 952067819), (19354511054, 19354511156, 953097913, 953097906),
     (19333571648, 19333571751, 954130174, 954130168), (19312633417, 19312633521, 955164616, 955164610),
     (19291696365, 19291696470, 956201245, 956201239), (19270760496, 19270760602, 957240068, 957240062),
     (19249825814, 19249825921, 958281091, 958281085), (19228892323, 19228892431, 959324322, 959324315),
     (19207960026, 19207960135, 960369766, 960369760), (19187028928, 19187029038, 961417432, 961417426),
     (19166099032, 19166099143, 962467326, 962467319), (19145170343, 19145170455, 963519454, 963519448),
     (19124242864, 19124242977, 964573825, 964573818), (19103316599, 19103316713, 965630444, 965630437),
     (19082391553, 19082391668, 966689318, 966689312), (19061467729, 19061467845, 967750456, 967750449),
     (19040545131, 19040545248, 968813863, 968813856), (19019623764, 19019623882, 969879547, 969879540),
     (18998703631, 18998703750, 970947515, 970947508), (18977784737, 18977784857, 972017774, 972017767),
     (18956867085, 18956867206, 973090332, 973090325), (18935950680, 18935950802, 974165195, 974165188),
     (18915035526, 18915035649, 975242370, 975242363), (18894121627, 18894121751, 976321866, 976321859),
     (18873208987, 18873209112, 977403689, 977403681), (18852297610, 18852297736, 978487846, 978487839),
     (18831387501, 18831387628, 979574345, 979574338), (18810478664, 18810478792, 980663194, 980663186),
     (18789571103, 18789571232, 981754399, 981754391), (18768664822, 18768664952, 982847968, 982847960),
     (18747759826, 18747759957, 983943909, 983943901), (18726856119, 18726856251, 985042228, 985042220),
     (18705953705, 18705953838, 986142935, 986142927), (18685052588, 18685052722, 987246035, 987246027),
     (18664152773, 18664152908, 988351537, 988351529), (18643254265, 18643254401, 989459448, 989459440),
     (18622357067, 18622357204, 990569777, 990569768), (18601461184, 18601461322, 991682530, 991682521),
     (18580566621, 18580566760, 992797715, 992797706), (18559673382, 18559673522, 993915340, 993915332),
     (18538781471, 18538781612, 995035413, 995035405), (18517890893, 18517891035, 996157942, 996157933),
     (18497001653, 18497001796, 997282934, 997282926), (18476113755, 18476113899, 998410398, 998410389),
     (18455227203, 18455227348, 999540341, 999540332), (18434342002, 18434342148, 1000672770, 1000672762),
     (18413458157, 18413458304, 1001807696, 1001807687), (18392575673, 18392575821, 1002945124, 1002945115),
     (18371694554, 18371694703, 1004085063, 1004085054), (18350814804, 18350814954, 1005227521, 1005227512),
     (18329936428, 18329936580, 1006372507, 1006372498), (18309059432, 18309059585, 1007520029, 1007520019),
     (18288183819, 18288183973, 1008670094, 1008670084), (18267309595, 18267309750, 1009822710, 1009822701),
     (18246436764, 18246436920, 1010977887, 1010977877), (18225565331, 18225565488, 1012135632, 1012135622),
     (18204695301, 18204695459, 1013295953, 1013295944), (18183826678, 18183826837, 1014458860, 1014458850),
     (18162959468, 18162959628, 1015624360, 1015624350), (18142093675, 18142093836, 1016792461, 1016792451),
     (18121229305, 18121229467, 1017963173, 1017963163), (18100366362, 18100366525, 1019136503, 1019136493),
     (18079504851, 18079505015, 1020312461, 1020312450), (18058644777, 18058644942, 1021491054, 1021491043),
     (18037786145, 18037786311, 1022672291, 1022672281), (18016928960, 18016929127, 1023856181, 1023856171),
     (17996073227, 17996073395, 1025042733, 1025042722), (17975218951, 17975219120, 1026231955, 1026231944),
     (17954366138, 17954366308, 1027423856, 1027423845), (17933514792, 17933514963, 1028618444, 1028618433),
     (17912664918, 17912665090, 1029815729, 1029815718), (17891816522, 17891816695, 1031015719, 1031015708),
     (17870969609, 17870969783, 1032218424, 1032218413), (17850124184, 17850124359, 1033423851, 1033423840),
     (17829280252, 17829280428, 1034632011, 1034632000), (17808437818, 17808437995, 1035842912, 1035842900),
     (17787596888, 17787597066, 1037056562, 1037056551), (17766757467, 17766757646, 1038272972, 1038272961),
     (17745919560, 17745919740, 1039492150, 1039492139), (17725083173, 17725083354, 1040714106, 1040714094),
     (17704248311, 17704248493, 1041938848, 1041938836), (17683414979, 17683415162, 1043166385, 1043166373),
     (17662583183, 17662583367, 1044396728, 1044396716), (17641752928, 17641753113, 1045629885, 1045629873),
     (17620924220, 17620924406, 1046865865, 1046865853), (17600097064, 17600097251, 1048104679, 1048104667),
     (17579271466, 17579271654, 1049346335, 1049346323), (17558447431, 17558447620, 1050590843, 1050590830),
     (17537624965, 17537625155, 1051838212, 1051838199), (17516804073, 17516804264, 1053088452, 1053088439),
     (17495984761, 17495984953, 1054341572, 1054341560), (17475167035, 17475167228, 1055597583, 1055597570),
     (17454350900, 17454351094, 1056856493, 1056856480), (17433536362, 17433536557, 1058118313, 1058118300),
     (17412723427, 17412723623, 1059383052, 1059383039), (17391912100, 17391912297, 1060650720, 1060650706),
     (17371102388, 17371102586, 1061921326, 1061921313), (17350294296, 17350294495, 1063194881, 1063194868),
     (17329487830, 17329488030, 1064471395, 1064471382), (17308682995, 17308683196, 1065750877, 1065750864),
     (17287879798, 17287880000, 1067033338, 1067033324), (17267078245, 17267078448, 1068318787, 1068318773),
     (17246278341, 17246278545, 1069607235, 1069607221), (17225480093, 17225480298, 1070898691, 1070898677),
     (17204683506, 17204683712, 1072193166, 1072193152), (17183888587, 17183888794, 1073490671, 1073490657),
     (17163095341, 17163095549, 1074791214, 1074791200), (17142303775, 17142303984, 1076094808, 1076094793),
     (17121513895, 17121514105, 1077401461, 1077401447), (17100725707, 17100725918, 1078711184, 1078711170),
     (17079939217, 17079939429, 1080023989, 1080023974), (17059154431, 17059154644, 1081339885, 1081339870),
     (17038371356, 17038371570, 1082658882, 1082658867), (17017589997, 17017590212, 1083980992, 1083980977),
     (16996810361, 16996810577, 1085306225, 1085306210), (16976032455, 16976032672, 1086634591, 1086634576),
     (16955256285, 16955256503, 1087966102, 1087966087), (16934481857, 16934482076, 1089300767, 1089300752),
     (16913709177, 16913709397, 1090638599, 1090638584), (16892938252, 16892938473, 1091979608, 1091979592),
     (16872169089, 16872169311, 1093323804, 1093323788), (16851401694, 16851401917, 1094671198, 1094671183),
     (16830636073, 16830636297, 1096021802, 1096021787), (16809872234, 16809872459, 1097375627, 1097375611),
     (16789110182, 16789110408, 1098732683, 1098732668), (16768349925, 16768350152, 1100092983, 1100092967),
     (16747591469, 16747591697, 1101456536, 1101456520), (16726834820, 16726835049, 1102823354, 1102823338),
     (16706079986, 16706080216, 1104193449, 1104193433), (16685326973, 16685327204, 1105566832, 1105566816),
     (16664575788, 16664576020, 1106943514, 1106943498), (16643826438, 16643826671, 1108323507, 1108323490),
     (16623078930, 16623079164, 1109706821, 1109706805), (16602333270, 16602333505, 1111093470, 1111093453),
     (16581589466, 16581589702, 1112483464, 1112483447), (16560847524, 16560847762, 1113876814, 1113876797),
     (16540107452, 16540107691, 1115273533, 1115273516), (16519369257, 16519369497, 1116673633, 1116673616),
     (16498632945, 16498633186, 1118077125, 1118077107), (16477898524, 16477898766, 1119484020, 1119484003),
     (16457166001, 16457166244, 1120894331, 1120894314), (16436435383, 16436435627, 1122308071, 1122308053),
     (16415706677, 16415706922, 1123725250, 1123725232), (16394979891, 16394980137, 1125145880, 1125145862),
     (16374255032, 16374255279, 1126569975, 1126569957)]"

definition enclosure_2 :: "(int \<times> int \<times> int \<times> int) list" where
  "enclosure_2 =
    [(16353532107, 16353532355, 1127997546, 1127997528), (16332811123, 16332811372, 1129428605, 1129428587),
     (16312092088, 16312092338, 1130863165, 1130863146), (16291375010, 16291375261, 1132301237, 1132301219),
     (16270659895, 16270660147, 1133742835, 1133742817), (16249946752, 16249947005, 1135187971, 1135187952),
     (16229235588, 16229235842, 1136636657, 1136636638), (16208526410, 16208526665, 1138088906, 1138088887),
     (16187819226, 16187819482, 1139544730, 1139544711), (16167114044, 16167114301, 1141004142, 1141004122),
     (16146410871, 16146411129, 1142467154, 1142467135), (16125709715, 16125709974, 1143933781, 1143933761),
     (16105010584, 16105010844, 1145404033, 1145404014), (16084313486, 16084313747, 1146877925, 1146877906),
     (16063618429, 16063618691, 1148355469, 1148355450), (16042925420, 16042925683, 1149836679, 1149836659),
     (16022234468, 16022234732, 1151321566, 1151321546), (16001545580, 16001545845, 1152810145, 1152810125),
     (15980858764, 15980859030, 1154302429, 1154302408), (15960174029, 15960174296, 1155798430, 1155798409),
     (15939491382, 15939491650, 1157298162, 1157298142), (15918810832, 15918811101, 1158801639, 1158801618),
     (15898132387, 15898132657, 1160308874, 1160308853), (15877456055, 15877456326, 1161819880, 1161819859),
     (15856781844, 15856782116, 1163334670, 1163334650), (15836109763, 15836110036, 1164853260, 1164853239),
     (15815439820, 15815440094, 1166375661, 1166375640), (15794772023, 15794772298, 1167901889, 1167901868),
     (15774106381, 15774106657, 1169431956, 1169431935), (15753442902, 15753443179, 1170965877, 1170965855),
     (15732781595, 15732781873, 1172503665, 1172503643), (15712122469, 15712122748, 1174045335, 1174045313),
     (15691465532, 15691465812, 1175590900, 1175590878), (15670810792, 15670811073, 1177140374, 1177140352),
     (15650158259, 15650158541, 1178693773, 1178693750), (15629507941, 15629508224, 1180251109, 1180251087),
     (15608859846, 15608860131, 1181812398, 1181812375), (15588213984, 15588214270, 1183377653, 1183377630),
     (15567570364, 15567570651, 1184946890, 1184946867), (15546928994, 15546929282, 1186520122, 1186520099),
     (15526289884, 15526290173, 1188097364, 1188097341), (15505653042, 15505653332, 1189678631, 1189678608),
     (15485018478, 15485018769, 1191263937, 1191263914), (15464386200, 15464386492, 1192853298, 1192853275),
     (15443756218, 15443756511, 1194446728, 1194446704), (15423128541, 15423128835, 1196044242, 1196044218),
     (15402503178, 15402503474, 1197645855, 1197645831), (15381880139, 15381880436, 1199251581, 1199251557),
     (15361259433, 15361259731, 1200861437, 1200861413), (15340641069, 15340641368, 1202475438, 1202475413),
     (15320025057, 15320025357, 1204093597, 1204093573), (15299411406, 15299411707, 1205715932, 1205715907),
     (15278800126, 15278800428, 1207342457, 1207342432), (15258191227, 15258191530, 1208973187, 1208973162),
     (15237584718, 15237585022, 1210608139, 1210608114), (15216980609, 15216980914, 1212247328, 1212247303),
     (15196378909, 15196379215, 1213890769, 1213890744), (15175779629, 15175779936, 1215538479, 1215538453),
     (15155182778, 15155183086, 1217190472, 1217190446), (15134588366, 15134588675, 1218846766, 1218846740),
     (15113996403, 15113996713, 1220507375, 1220507349), (15093406899, 15093407210, 1222172317, 1222172291),
     (15072819864, 15072820176, 1223841607, 1223841580), (15052235309, 15052235622, 1225515261, 1225515234),
     (15031653243, 15031653557, 1227193296, 1227193269), (15011073677, 15011073992, 1228875727, 1228875700),
     (14990496621, 14990496937, 1230562572, 1230562545), (14969922085, 14969922402, 1232253847, 1232253820),
     (14949350080, 14949350398, 1233949569, 1233949541), (14928780616, 14928780935, 1235649753, 1235649726),
     (14908213704, 14908214024, 1237354417, 1237354390), (14887649354, 14887649675, 1239063578, 1239063551),
     (14867087577, 14867087899, 1240777253, 1240777225), (14846528384, 14846528707, 1242495458, 1242495430),
     (14825971785, 14825972109, 1244218210, 1244218182), (14805417791, 14805418117, 1245945528, 1245945499),
     (14784866413, 14784866741, 1247677427, 1247677398), (14764317662, 14764317991, 1249413925, 1249413896),
     (14743771549, 14743771879, 1251155040, 1251155011), (14723228085, 14723228416, 1252900789, 1252900760),
     (14702687281, 14702687613, 1254651189, 1254651160), (14682149149, 14682149482, 1256406259, 1256406229),
     (14661613699, 14661614033, 1258166015, 1258165985), (14641080943, 14641081278, 1259930476, 1259930446),
     (14620550892, 14620551228, 1261699659, 1261699629), (14600023557, 14600023894, 1263473583, 1263473553),
     (14579498950, 14579499288, 1265252266, 1265252235), (14558977083, 14558977422, 1267035725, 1267035694),
     (14538457967, 14538458307, 1268823979, 1268823948), (14517941613, 14517941954, 1270617046, 1270617015),
     (14497428034, 14497428376, 1272414944, 1272414913), (14476917241, 14476917584, 1274217692, 1274217661),
     (14456409246, 14456409590, 1276025309, 1276025278), (14435904061, 14435904406, 1277837813, 1277837782),
     (14415401698, 14415402044, 1279655223, 1279655192), (14394902169, 14394902516, 1281477558, 1281477526),
     (14374405486, 14374405834, 1283304836, 1283304804), (14353911662, 14353912011, 1285137077, 1285137045),
     (14333420708, 14333421058, 1286974300, 1286974267), (14312932637, 14312932988, 1288816523, 1288816491),
     (14292447461, 14292447813, 1290663767, 1290663734), (14271965193, 14271965546, 1292516050, 1292516017),
     (14251485845, 14251486199, 1294373392, 1294373359), (14231009430, 14231009785, 1296235813, 1296235780),
     (14210535961, 14210536317, 1298103332, 1298103299), (14190065450, 14190065807, 1299975969, 1299975935),
     (14169597910, 14169598268, 1301853743, 1301853709), (14149133354, 14149133713, 1303736676, 1303736641),
     (14128671795, 14128672155, 1305624785, 1305624751), (14108213246, 14108213607, 1307518093, 1307518059),
     (14087757720, 14087758082, 1309416619, 1309416584), (14067305230, 14067305594, 1311320383, 1311320348),
     (14046855790, 14046856155, 1313229406, 1313229371), (14026409413, 14026409779, 1315143708, 1315143672),
     (14005966112, 14005966479, 1317063310, 1317063274), (13985525901, 13985526269, 1318988232, 1318988196),
     (13965088793, 13965089162, 1320918496, 1320918460), (13944654802, 13944655172, 1322854122, 1322854086),
     (13924223942, 13924224313, 1324795131, 1324795095), (13903796226, 13903796598, 1326741545, 1326741508),
     (13883371669, 13883372042, 1328693384, 1328693347), (13862950284, 13862950658, 1330650670, 1330650633),
     (13842532085, 13842532460, 1332613424, 1332613387), (13822117087, 13822117463, 1334581668, 1334581631),
     (13801705303, 13801705680, 1336555424, 1336555386), (13781296748, 13781297126, 1338534713, 1338534675),
     (13760891436, 13760891815, 1340519556, 1340519518), (13740489382, 13740489762, 1342509977, 1342509939),
     (13720090600, 13720090981, 1344505996, 1344505958), (13699695105, 13699695487, 1346507637, 1346507598),
     (13679302912, 13679303295, 1348514921, 1348514882), (13658914035, 13658914419, 1350527870, 1350527831),
     (13638528489, 13638528874, 1352546508, 1352546469), (13618146289, 13618146675, 1354570856, 1354570817),
     (13597767450, 13597767837, 1356600938, 1356600899), (13577391987, 13577392376, 1358636776, 1358636736),
     (13557019916, 13557020306, 1360678394, 1360678353), (13536651252, 13536651643, 1362725813, 1362725772),
     (13516286010, 13516286402, 1364779057, 1364779017), (13495924206, 13495924599, 1366838150, 1366838110),
     (13475565855, 13475566249, 1368903115, 1368903074), (13455210973, 13455211368, 1370973976, 1370973934),
     (13434859575, 13434859971, 1373050755, 1373050713), (13414511678, 13414512075, 1375133477, 1375133435),
     (13394167297, 13394167695, 1377222165, 1377222123), (13373826449, 13373826848, 1379316843, 1379316801),
     (13353489149, 13353489550, 1381417536, 1381417494), (13333155414, 13333155816, 1383524268, 1383524225),
     (13312825261, 13312825664, 1385637062, 1385637019), (13292498705, 13292499109, 1387755943, 1387755900),
     (13272175763, 13272176168, 1389880937, 1389880893), (13251856452, 13251856858, 1392012066, 1392012023),
     (13231540788, 13231541196, 1394149357, 1394149313), (13211228789, 13211229198, 1396292834, 1396292789),
     (13190920471, 13190920881, 1398442521, 1398442477), (13170615851, 13170616262, 1400598445, 1400598400),
     (13150314946, 13150315359, 1402760630, 1402760585), (13130017774, 13130018188, 1404929102, 1404929057),
     (13109724352, 13109724767, 1407103886, 1407103840), (13089434697, 13089435113, 1409285008, 1409284962),
     (13069148827, 13069149244, 1411472493, 1411472447), (13048866760, 13048867178, 1413666368, 1413666322),
     (13028588513, 13028588932, 1415866658, 1415866612), (13008314104, 13008314524, 1418073390, 1418073343),
     (12988043551, 12988043972, 1420286590, 1420286543), (12967776872, 12967777294, 1422506283, 1422506236),
     (12947514085, 12947514508, 1424732498, 1424732450), (12927255209, 12927255633, 1426965259, 1426965211),
     (12907000262, 12907000687, 1429204595, 1429204547), (12886749262, 12886749689, 1431450531, 1431450483),
     (12866502229, 12866502657, 1433703096, 1433703047), (12846259181, 12846259610, 1435962316, 1435962267),
     (12826020136, 12826020566, 1438228218, 1438228168), (12805785114, 12805785545, 1440500830, 1440500780),
     (12785554134, 12785554566, 1442780179, 1442780129), (12765327215, 12765327648, 1445066293, 1445066243),
     (12745104376, 12745104810, 1447359201, 1447359150), (12724885637, 12724886072, 1449658929, 1449658878),
     (12704671017, 12704671453, 1451965506, 1451965455), (12684460536, 12684460973, 1454278960, 1454278909),
     (12664254214, 12664254652, 1456599320, 1456599269), (12644052071, 12644052510, 1458926614, 1458926563),
     (12623854127, 12623854567, 1461260871, 1461260819), (12603660402, 12603660843, 1463602120, 1463602067),
     (12583470916, 12583471358, 1465950389, 1465950336), (12563285690, 12563286133, 1468305707, 1468305654),
     (12543104744, 12543105188, 1470668105, 1470668052), (12522928099, 12522928544, 1473037610, 1473037557),
     (12502755776, 12502756222, 1475414254, 1475414200), (12482587795, 12482588242, 1477798064, 1477798010),
     (12462424178, 12462424626, 1480189072, 1480189018), (12442264946, 12442265395, 1482587307, 1482587253),
     (12422110120, 12422110570, 1484992799, 1484992744), (12401959722, 12401960173, 1487405579, 1487405524),
     (12381813773, 12381814226, 1489825676, 1489825621), (12361672296, 12361672750, 1492253122, 1492253066),
     (12341535312, 12341535767, 1494687947, 1494687891), (12321402843, 12321403299, 1497130182, 1497130126),
     (12301274911, 12301275368, 1499579858, 1499579801), (12281151538, 12281151996, 1502037005, 1502036948),
     (12261032747, 12261033206, 1504501657, 1504501599), (12240918561, 12240919021, 1506973843, 1506973785),
     (12220809002, 12220809463, 1509453595, 1509453537), (12200704093, 12200704555, 1511940945, 1511940887),
     (12180603857, 12180604320, 1514435926, 1514435867), (12160508317, 12160508781, 1516938569, 1516938510),
     (12140417497, 12140417962, 1519448906, 1519448846), (12120331420, 12120331886, 1521966969, 1521966910),
     (12100250109, 12100250576, 1524492793, 1524492733), (12080173589, 12080174057, 1527026408, 1527026348),
     (12060101883, 12060102352, 1529567848, 1529567787), (12040035015, 12040035485, 1532117146, 1532117085),
     (12019973010, 12019973481, 1534674334, 1534674273), (11999915892, 11999916364, 1537239448, 1537239386),
     (11979863685, 11979864158, 1539812519, 1539812457), (11959816414, 11959816888, 1542393582, 1542393520),
     (11939774104, 11939774579, 1544982670, 1544982608), (11919736780, 11919737256, 1547579818, 1547579755),
     (11899704467, 11899704945, 1550185060, 1550184996), (11879677191, 11879677670, 1552798429, 1552798365),
     (11859654977, 11859655457, 1555419961, 1555419897), (11839637851, 11839638332, 1558049690, 1558049625),
     (11819625838, 11819626320, 1560687651, 1560687586), (11799618965, 11799619448, 1563333878, 1563333813),
     (11779617257, 11779617742, 1565988408, 1565988343), (11759620741, 11759621228, 1568651276, 1568651210),
     (11739629444, 11739629932, 1571322516, 1571322450), (11719643392, 11719643881, 1574002166, 1574002099),
     (11699662612, 11699663102, 1576690259, 1576690192), (11679687131, 11679687623, 1579386834, 1579386766),
     (11659716977, 11659717470, 1582091925, 1582091857), (11639752177, 11639752671, 1584805570, 1584805501),
     (11619792758, 11619793253, 1587527804, 1587527735), (11599838748, 11599839244, 1590258665, 1590258596),
     (11579890175, 11579890672, 1592998189, 1592998120), (11559947067, 11559947565, 1595746414, 1595746344),
     (11540009453, 11540009952, 1598503377, 1598503307), (11520077361, 11520077861, 1601269115, 1601269044),
     (11500150819, 11500151321, 1604043666, 1604043595), (11480229857, 11480230360, 1606827068, 1606826996),
     (11460314504, 11460315008, 1609619358, 1609619287), (11440404789, 11440405294, 1612420576, 1612420504),
     (11420500741, 11420501247, 1615230759, 1615230686), (11400602390, 11400602897, 1618049946, 1618049873),
     (11380709766, 11380710274, 1620878175, 1620878102)]"

definition enclosure_3 :: "(int \<times> int \<times> int \<times> int) list" where
  "enclosure_3 =
    [(11360822899, 11360823408, 1623715486, 1623715413), (11340941819, 11340942329, 1626561918, 1626561844),
     (11321066557, 11321067068, 1629417510, 1629417435), (11301197144, 11301197656, 1632282301, 1632282226),
     (11281333610, 11281334123, 1635156331, 1635156256), (11261475986, 11261476500, 1638039641, 1638039565),
     (11241624304, 11241624819, 1640932269, 1640932193), (11221778595, 11221779111, 1643834257, 1643834180),
     (11201938891, 11201939408, 1646745645, 1646745568), (11182105224, 11182105742, 1649666472, 1649666395),
     (11162277626, 11162278145, 1652596782, 1652596704), (11142456129, 11142456650, 1655536613, 1655536534),
     (11122640766, 11122641289, 1658486008, 1658485929), (11102831570, 11102832095, 1661445007, 1661444928),
     (11083028574, 11083029100, 1664413653, 1664413573), (11063231811, 11063232339, 1667391988, 1667391907),
     (11043441315, 11043441844, 1670380052, 1670379971), (11023657120, 11023657650, 1673377889, 1673377807),
     (11003879259, 11003879790, 1676385541, 1676385459), (10984107766, 10984108299, 1679403050, 1679402967),
     (10964342676, 10964343211, 1682430459, 1682430376), (10944584024, 10944584560, 1685467811, 1685467728),
     (10924831845, 10924832382, 1688515150, 1688515066), (10905086173, 10905086712, 1691572518, 1691572434),
     (10885347045, 10885347585, 1694639960, 1694639875), (10865614495, 10865615037, 1697717519, 1697717433),
     (10845888560, 10845889103, 1700805239, 1700805152), (10826169276, 10826169820, 1703903164, 1703903077),
     (10806456679, 10806457224, 1707011338, 1707011251), (10786750806, 10786751352, 1710129807, 1710129720),
     (10767051694, 10767052241, 1713258616, 1713258528), (10747359379, 10747359928, 1716397808, 1716397719),
     (10727673900, 10727674450, 1719547429, 1719547340), (10707995294, 10707995845, 1722707526, 1722707436),
     (10688323599, 10688324151, 1725878142, 1725878052), (10668658853, 10668659406, 1729059325, 1729059235),
     (10649001094, 10649001649, 1732251121, 1732251029), (10629350362, 10629350918, 1735453574, 1735453483),
     (10609706695, 10609707252, 1738666733, 1738666641), (10590070133, 10590070691, 1741890644, 1741890551),
     (10570440715, 10570441274, 1745125353, 1745125259), (10550818481, 10550819041, 1748370907, 1748370813),
     (10531203471, 10531204032, 1751627355, 1751627261), (10511595726, 10511596288, 1754894743, 1754894648),
     (10491995286, 10491995849, 1758173119, 1758173024), (10472402193, 10472402757, 1761462532, 1761462436),
     (10452816487, 10452817052, 1764763028, 1764762932), (10433238210, 10433238777, 1768074658, 1768074561),
     (10413667404, 10413667973, 1771397469, 1771397371), (10394104112, 10394104682, 1774731509, 1774731411),
     (10374548375, 10374548947, 1778076829, 1778076730), (10355000237, 10355000810, 1781433477, 1781433378),
     (10335459741, 10335460315, 1784801503, 1784801403), (10315926930, 10315927505, 1788180956, 1788180855),
     (10296401847, 10296402424, 1791571886, 1791571785), (10276884537, 10276885115, 1794974344, 1794974242),
     (10257375044, 10257375623, 1798388379, 1798388277), (10237873413, 10237873993, 1801814042, 1801813939),
     (10218379689, 10218380270, 1805251384, 1805251281), (10198893917, 10198894499, 1808700456, 1808700352),
     (10179416143, 10179416726, 1812161309, 1812161204), (10159946412, 10159946996, 1815633994, 1815633888),
     (10140484771, 10140485356, 1819118562, 1819118456), (10121031267, 10121031853, 1822615067, 1822614960),
     (10101585947, 10101586534, 1826123559, 1826123452), (10082148857, 10082149446, 1829644091, 1829643983),
     (10062720046, 10062720636, 1833176715, 1833176607), (10043299562, 10043300153, 1836721484, 1836721375),
     (10023887453, 10023888045, 1840278451, 1840278342), (10004483767, 10004484361, 1843847670, 1843847559),
     (9985088554, 9985089150, 1847429192, 1847429081), (9965701864, 9965702461, 1851023072, 1851022960),
     (9946323746, 9946324344, 1854629364, 1854629251), (9926954250, 9926954849, 1858248121, 1858248008),
     (9907593427, 9907594027, 1861879397, 1861879284), (9888241327, 9888241929, 1865523248, 1865523134),
     (9868898002, 9868898606, 1869179728, 1869179612), (9849563504, 9849564109, 1872848890, 1872848774),
     (9830237885, 9830238491, 1876530791, 1876530675), (9810921197, 9810921804, 1880225486, 1880225369),
     (9791613493, 9791614101, 1883933030, 1883932912), (9772314826, 9772315435, 1887653479, 1887653360),
     (9753025250, 9753025860, 1891386888, 1891386769), (9733744819, 9733745430, 1895133314, 1895133194),
     (9714473587, 9714474199, 1898892813, 1898892693), (9695211609, 9695212223, 1902665442, 1902665320),
     (9675958941, 9675959556, 1906451256, 1906451134), (9656715638, 9656716254, 1910250314, 1910250191),
     (9637481756, 9637482373, 1914062672, 1914062548), (9618257351, 9618257970, 1917888387, 1917888263),
     (9599042481, 9599043101, 1921727518, 1921727392), (9579837203, 9579837824, 1925580121, 1925579995),
     (9560641574, 9560642197, 1929446255, 1929446128), (9541455653, 9541456277, 1933325978, 1933325850),
     (9522279499, 9522280124, 1937219348, 1937219219), (9503113170, 9503113796, 1941126423, 1941126294),
     (9483956726, 9483957354, 1945047264, 1945047134), (9464810227, 9464810857, 1948981927, 1948981797),
     (9445673734, 9445674365, 1952930474, 1952930342), (9426547307, 9426547940, 1956892962, 1956892829),
     (9407431008, 9407431642, 1960869451, 1960869318), (9388324899, 9388325534, 1964860002, 1964859868),
     (9369229042, 9369229678, 1968864673, 1968864539), (9350143500, 9350144137, 1972883526, 1972883391),
     (9331068336, 9331068974, 1976916620, 1976916484), (9312003613, 9312004253, 1980964016, 1980963879),
     (9292949396, 9292950038, 1985025775, 1985025637), (9273905750, 9273906393, 1989101957, 1989101818),
     (9254872740, 9254873384, 1993192624, 1993192484), (9235850432, 9235851077, 1997297836, 1997297695),
     (9216838892, 9216839538, 2001417655, 2001417513), (9197838186, 9197838834, 2005552142, 2005552000),
     (9178848382, 9178849032, 2009701360, 2009701217), (9159869548, 9159870199, 2013865370, 2013865226),
     (9140901752, 9140902404, 2018044234, 2018044090), (9121945063, 9121945716, 2022238015, 2022237869),
     (9102999550, 9103000204, 2026446775, 2026446628), (9084065283, 9084065938, 2030670576, 2030670428),
     (9065142332, 9065142989, 2034909481, 2034909333), (9046230769, 9046231427, 2039163553, 2039163404),
     (9027330665, 9027331324, 2043432855, 2043432705), (9008442092, 9008442752, 2047717451, 2047717300),
     (8989565123, 8989565784, 2052017403, 2052017251), (8970699831, 8970700493, 2056332775, 2056332622),
     (8951846290, 8951846953, 2060663631, 2060663477), (8933004574, 8933005238, 2065010034, 2065009879),
     (8914174758, 8914175423, 2069372048, 2069371893), (8895356918, 8895357584, 2073749738, 2073749582),
     (8876551129, 8876551797, 2078143167, 2078143010), (8857757469, 8857758138, 2082552400, 2082552242),
     (8838976015, 8838976685, 2086977501, 2086977342), (8820206845, 8820207516, 2091418535, 2091418375),
     (8801450037, 8801450709, 2095875566, 2095875405), (8782705670, 8782706344, 2100348659, 2100348497),
     (8763973825, 8763974500, 2104837879, 2104837716), (8745254582, 8745255258, 2109343291, 2109343127),
     (8726548021, 8726548699, 2113864959, 2113864794), (8707854225, 8707854904, 2118402950, 2118402784),
     (8689173276, 8689173956, 2122957328, 2122957161), (8670505257, 8670505938, 2127528158, 2127527990),
     (8651850251, 8651850934, 2132115506, 2132115337), (8633208343, 8633209028, 2136719438, 2136719267),
     (8614579618, 8614580305, 2141340018, 2141339847), (8595964162, 8595964850, 2145977313, 2145977141),
     (8577362061, 8577362750, 2150631388, 2150631215), (8558773402, 8558774092, 2155302309, 2155302135),
     (8540198272, 8540198964, 2159990142, 2159989966), (8521636761, 8521637454, 2164694952, 2164694775),
     (8503088957, 8503089652, 2169416805, 2169416627), (8484554950, 8484555647, 2174155767, 2174155588),
     (8466034831, 8466035530, 2178911905, 2178911724), (8447528691, 8447529392, 2183685283, 2183685101),
     (8429036622, 8429037325, 2188475968, 2188475784), (8410558717, 8410559422, 2193284025, 2193283840),
     (8392095070, 8392095776, 2198109521, 2198109335), (8373645775, 8373646482, 2202952522, 2202952335),
     (8355210926, 8355211635, 2207813093, 2207812905), (8336790620, 8336791331, 2212691300, 2212691111),
     (8318384953, 8318385666, 2217587210, 2217587019), (8299994023, 8299994737, 2222500887, 2222500695),
     (8281617927, 8281618643, 2227432398, 2227432204), (8263256765, 8263257483, 2232381808, 2232381613),
     (8244910637, 8244911356, 2237349183, 2237348987), (8226579643, 8226580363, 2242334588, 2242334391),
     (8208263884, 8208264605, 2247338090, 2247337891), (8189963462, 8189964185, 2252359753, 2252359553),
     (8171678481, 8171679206, 2257399642, 2257399441), (8153409044, 8153409771, 2262457823, 2262457621),
     (8135155256, 8135155985, 2267534361, 2267534157), (8116917223, 8116917954, 2272629321, 2272629115),
     (8098695051, 8098695784, 2277742767, 2277742560), (8080488848, 8080489582, 2282874765, 2282874556),
     (8062298721, 8062299457, 2288025378, 2288025168), (8044124780, 8044125517, 2293194671, 2293194460),
     (8025967134, 8025967873, 2298382708, 2298382496), (8007825895, 8007826635, 2303589553, 2303589340),
     (7989701174, 7989701915, 2308815271, 2308815055), (7971593083, 7971593826, 2314059923, 2314059707),
     (7953501737, 7953502481, 2319323574, 2319323356), (7935427249, 7935427995, 2324606288, 2324606068),
     (7917369736, 7917370483, 2329908125, 2329907904), (7899329313, 7899330062, 2335229150, 2335228928),
     (7881306098, 7881306849, 2340569424, 2340569200), (7863300210, 7863300962, 2345929010, 2345928785),
     (7845311767, 7845312521, 2351307969, 2351307742), (7827340890, 7827341646, 2356706363, 2356706134),
     (7809387700, 7809388458, 2362124252, 2362124021), (7791452320, 7791453079, 2367561697, 2367561465),
     (7773534872, 7773535633, 2373018759, 2373018526), (7755635481, 7755636244, 2378495498, 2378495263),
     (7737754272, 7737755037, 2383991974, 2383991737), (7719891372, 7719892139, 2389508244, 2389508006),
     (7702046908, 7702047676, 2395044369, 2395044129), (7684221008, 7684221778, 2400600407, 2400600165),
     (7666413802, 7666414574, 2406176415, 2406176172), (7648625420, 7648626194, 2411772451, 2411772206),
     (7630855994, 7630856770, 2417388572, 2417388326), (7613105657, 7613106435, 2423024835, 2423024586),
     (7595374543, 7595375323, 2428681295, 2428681044), (7577662786, 7577663568, 2434358007, 2434357755),
     (7559970523, 7559971307, 2440055027, 2440054773), (7542297891, 7542298676, 2445772408, 2445772153),
     (7524645028, 7524645815, 2451510205, 2451509948), (7507012073, 7507012862, 2457268471, 2457268212),
     (7489399167, 7489399958, 2463047257, 2463046996), (7471806452, 7471807245, 2468846616, 2468846353),
     (7454234071, 7454234866, 2474666599, 2474666334), (7436682168, 7436682965, 2480507256, 2480506989),
     (7419150889, 7419151688, 2486368636, 2486368367), (7401640380, 7401641181, 2492250789, 2492250518),
     (7384150789, 7384151592, 2498153763, 2498153490), (7366682265, 7366683069, 2504077604, 2504077330),
     (7349234958, 7349235764, 2510022361, 2510022084), (7331809019, 7331809827, 2515988077, 2515987799),
     (7314404601, 7314405411, 2521974800, 2521974519), (7297021859, 7297022671, 2527982571, 2527982288),
     (7279660947, 7279661761, 2534011434, 2534011150), (7262322022, 7262322838, 2540061432, 2540061146),
     (7245005242, 7245006061, 2546132606, 2546132317), (7227710767, 7227711588, 2552224995, 2552224704),
     (7210438757, 7210439580, 2558338639, 2558338346), (7193189373, 7193190198, 2564473576, 2564473281),
     (7175962779, 7175963606, 2570629844, 2570629546), (7158759139, 7158759969, 2576807477, 2576807178),
     (7141578620, 7141579452, 2583006511, 2583006209), (7124421389, 7124422223, 2589226980, 2589226676),
     (7107287614, 7107288450, 2595468916, 2595468609), (7090177465, 7090178304, 2601732350, 2601732041),
     (7073091114, 7073091956, 2608017312, 2608017001), (7056028734, 7056029578, 2614323832, 2614323518),
     (7038990500, 7038991346, 2620651935, 2620651619), (7021976587, 7021977435, 2627001650, 2627001331),
     (7004987172, 7004988022, 2633372999, 2633372678), (6988022434, 6988023286, 2639766007, 2639765684),
     (6971082554, 6971083408, 2646180695, 2646180370), (6954167713, 6954168569, 2652617084, 2652616756),
     (6937278094, 6937278952, 2659075192, 2659074862), (6920413882, 6920414742, 2665555036, 2665554704),
     (6903575264, 6903576126, 2672056633, 2672056299), (6886762427, 6886763291, 2678579996, 2678579659),
     (6869975560, 6869976427, 2685125139, 2685124799), (6853214855, 6853215724, 2691692070, 2691691727),
     (6836480504, 6836481375, 2698280799, 2698280454), (6819772701, 6819773574, 2704891334, 2704890987),
     (6803091642, 6803092517, 2711523679, 2711523329)]"

definition enclosure_4 :: "(int \<times> int \<times> int \<times> int) list" where
  "enclosure_4 =
    [(6786437524, 6786438401, 2718177838, 2718177486), (6769810546, 6769811425, 2724853813, 2724853458),
     (6753210909, 6753211790, 2731551602, 2731551245), (6736638815, 6736639698, 2738271204, 2738270844),
     (6720094467, 6720095353, 2745012614, 2745012251), (6703578072, 6703578960, 2751775825, 2751775459),
     (6687089836, 6687090727, 2758560828, 2758560460), (6670629969, 6670630863, 2765367613, 2765367242),
     (6654198681, 6654199578, 2772196167, 2772195792), (6637796185, 6637797084, 2779046473, 2779046096),
     (6621422695, 6621423596, 2785918514, 2785918134), (6605078426, 6605079330, 2792812271, 2792811887),
     (6588763596, 6588764503, 2799727720, 2799727333), (6572478425, 6572479335, 2806664835, 2806664446),
     (6556223134, 6556224047, 2813623591, 2813623198), (6539997946, 6539998862, 2820603956, 2820603560),
     (6523803085, 6523804004, 2827605897, 2827605498), (6507638779, 6507639700, 2834629380, 2834628978),
     (6491505255, 6491506179, 2841674366, 2841673960), (6475402744, 6475403671, 2848740813, 2848740404),
     (6459331479, 6459332408, 2855828678, 2855828266), (6443291693, 6443292625, 2862937914, 2862937499),
     (6427283622, 6427284557, 2870068471, 2870068052), (6411307504, 6411308442, 2877220296, 2877219874),
     (6395363578, 6395364519, 2884393335, 2884392909), (6379452087, 6379453031, 2891587526, 2891587097),
     (6363573273, 6363574220, 2898802809, 2898802376), (6347727383, 6347728333, 2906039117, 2906038681),
     (6331914664, 6331915617, 2913296381, 2913295942), (6316135365, 6316136321, 2920574530, 2920574087),
     (6300389737, 6300390696, 2927873488, 2927873042), (6284678034, 6284678996, 2935193176, 2935192725),
     (6269000512, 6269001477, 2942533509, 2942533055), (6253357427, 6253358395, 2949894403, 2949893946),
     (6237749040, 6237750011, 2957275767, 2957275306), (6222175611, 6222176585, 2964677507, 2964677042),
     (6206637404, 6206638381, 2972099524, 2972099056), (6191134685, 6191135665, 2979541718, 2979541246),
     (6175667721, 6175668705, 2987003982, 2987003505), (6160236782, 6160237770, 2994486207, 2994485726),
     (6144842140, 6144843131, 3001988278, 3001987793), (6129484069, 6129485063, 3009510078, 3009509589),
     (6114162845, 6114163842, 3017051483, 3017050990), (6098878745, 6098879746, 3024612367, 3024611870),
     (6083632051, 6083633055, 3032192598, 3032192097), (6068423044, 6068424051, 3039792042, 3039791537),
     (6053252009, 6053253020, 3047410557, 3047410047), (6038119233, 6038120247, 3055047998, 3055047484),
     (6023025004, 6023026022, 3062704217, 3062703698), (6007969614, 6007970636, 3070379057, 3070378534),
     (5992953356, 5992954382, 3078072359, 3078071832), (5977976525, 5977977555, 3085783960, 3085783428),
     (5963039419, 5963040453, 3093513690, 3093513153), (5948142338, 5948143376, 3101261373, 3101260831),
     (5933285584, 5933286626, 3109026831, 3109026284), (5918469461, 5918470507, 3116809878, 3116809326),
     (5903694275, 5903695325, 3124610323, 3124609766), (5888960336, 5888961390, 3132427971, 3132427409),
     (5874267954, 5874269012, 3140262620, 3140262054), (5859617443, 5859618505, 3148114063, 3148113492),
     (5845009118, 5845010184, 3155982087, 3155981511), (5830443297, 5830444367, 3163866474, 3163865892),
     (5815920300, 5815921375, 3171766999, 3171766412), (5801440450, 5801441529, 3179683431, 3179682839),
     (5787004071, 5787005154, 3187615535, 3187614937), (5772611490, 5772612577, 3195563067, 3195562464),
     (5758263036, 5758264127, 3203525779, 3203525171), (5743959041, 5743960136, 3211503415, 3211502802),
     (5729699838, 5729700938, 3219495715, 3219495096), (5715485764, 5715486869, 3227502410, 3227501785),
     (5701317157, 5701318267, 3235523225, 3235522594), (5687194358, 5687195473, 3243557880, 3243557243),
     (5673117710, 5673118829, 3251606087, 3251605444), (5659087558, 5659088682, 3259667550, 3259666902),
     (5645104250, 5645105379, 3267741969, 3267741314), (5631168136, 5631169269, 3275829034, 3275828374),
     (5617279568, 5617280706, 3283928431, 3283927764), (5603438901, 5603440043, 3292039835, 3292039163),
     (5589646491, 5589647638, 3300162918, 3300162240), (5575902698, 5575903850, 3308297342, 3308296658),
     (5562207883, 5562209041, 3316442762, 3316442071), (5548562411, 5548563574, 3324598826, 3324598128),
     (5534966647, 5534967815, 3332765173, 3332764469), (5521420960, 5521422133, 3340941437, 3340940726),
     (5507925720, 5507926899, 3349127242, 3349126524), (5494481301, 5494482485, 3357322205, 3357321480),
     (5481088078, 5481089267, 3365525935, 3365525204), (5467746428, 5467747623, 3373738033, 3373737294),
     (5454456732, 5454457932, 3381958091, 3381957346), (5441219371, 5441220577, 3390185695, 3390184943),
     (5428034730, 5428035942, 3398420422, 3398419662), (5414903195, 5414904413, 3406661839, 3406661072),
     (5401825155, 5401826379, 3414909507, 3414908732), (5388801002, 5388802232, 3423162976, 3423162194),
     (5375831128, 5375832364, 3431421791, 3431421001), (5362915929, 5362917171, 3439685485, 3439684687),
     (5350055803, 5350057051, 3447953583, 3447952778), (5337251149, 5337252404, 3456225604, 3456224790),
     (5324502370, 5324503631, 3464501055, 3464500233), (5311809870, 5311811137, 3472779434, 3472778605),
     (5299174054, 5299175328, 3481060235, 3481059397), (5286595332, 5286596613, 3489342936, 3489342089),
     (5274074114, 5274075402, 3497627010, 3497626155), (5261610812, 5261612107, 3505911922, 3505911058),
     (5249205841, 5249207143, 3514197125, 3514196253), (5236859618, 5236860927, 3522482064, 3522481183),
     (5224572561, 5224573877, 3530766175, 3530765284), (5212345091, 5212346414, 3539048884, 3539047985),
     (5200177630, 5200178961, 3547329608, 3547328700), (5188070603, 5188071942, 3555607756, 3555606838),
     (5176024437, 5176025784, 3563882725, 3563881797), (5164039560, 5164040915, 3572153904, 3572152966),
     (5152116402, 5152117765, 3580420673, 3580419725), (5140255395, 5140256767, 3588682402, 3588681443),
     (5128456973, 5128458354, 3596938450, 3596937481), (5116721572, 5116722962, 3605188169, 3605187189),
     (5105049629, 5105051028, 3613430900, 3613429909), (5093441583, 5093442991, 3621665975, 3621664973),
     (5081897875, 5081899292, 3629892715, 3629891702), (5070418948, 5070420374, 3638110433, 3638109409),
     (5059005245, 5059006680, 3646318433, 3646317397), (5047657212, 5047658656, 3654516006, 3654514960),
     (5036375296, 5036376750, 3662702438, 3662701380), (5025159946, 5025161410, 3670877002, 3670875931),
     (5014011612, 5014013085, 3679038962, 3679037880), (5002930745, 5002932228, 3687187574, 3687186480),
     (4991917798, 4991919291, 3695322083, 3695320977), (4980973225, 4980974728, 3703441726, 3703440607),
     (4970097481, 4970098995, 3711545729, 3711544597), (4959291023, 4959292548, 3719633309, 3719632164),
     (4948554309, 4948555845, 3727703674, 3727702515), (4937887798, 4937889345, 3735756022, 3735754850),
     (4927291950, 4927293508, 3743789543, 3743788358), (4916767225, 4916768795, 3751803417, 3751802218),
     (4906314086, 4906315668, 3759796815, 3759795602), (4895932996, 4895934590, 3767768899, 3767767672),
     (4885624418, 4885626024, 3775718823, 3775717581), (4875388817, 4875390435, 3783645729, 3783644473),
     (4865226658, 4865228289, 3791548755, 3791547483), (4855138407, 4855140051, 3799427026, 3799425738),
     (4845124531, 4845126188, 3807279660, 3807278357), (4835185497, 4835187167, 3815105767, 3815104449),
     (4825321772, 4825323456, 3822904450, 3822903115), (4815533825, 4815535523, 3830674801, 3830673449),
     (4805822124, 4805823836, 3838415905, 3838414536), (4796187138, 4796188865, 3846126839, 3846125453),
     (4786629336, 4786631078, 3853806673, 3853805269), (4777149186, 4777150944, 3861454470, 3861453048),
     (4767747159, 4767748932, 3869069282, 3869067842), (4758423723, 4758425512, 3876650158, 3876648699),
     (4749179347, 4749181153, 3884196138, 3884194659), (4740014501, 4740016323, 3891706254, 3891704757),
     (4730929653, 4730931492, 3899179533, 3899178017), (4721925272, 4721927128, 3906614996, 3906613459),
     (4713001826, 4713003700, 3914011655, 3914010097), (4704159782, 4704161675, 3921368519, 3921366940),
     (4695399608, 4695401520, 3928684588, 3928682988), (4686721771, 4686723702, 3935958859, 3935957237),
     (4678126736, 4678128687, 3943190323, 3943188678), (4669614968, 4669616940, 3950377965, 3950376296),
     (4661186932, 4661188925, 3957520766, 3957519073), (4652843091, 4652845105, 3964617700, 3964615983),
     (4644583907, 4644585943, 3971667741, 3971665999), (4636409842, 4636411900, 3978669855, 3978668088),
     (4628321355, 4628323436, 3985623007, 3985621214), (4620318905, 4620321010, 3992526156, 3992524336),
     (4612402950, 4612405079, 3999378258, 3999376411), (4604573945, 4604576099, 4006178269, 4006176394),
     (4596832345, 4596834524, 4012925139, 4012923236), (4589178602, 4589180807, 4019617817, 4019615885),
     (4581613167, 4581615398, 4026255252, 4026253290), (4574136489, 4574138747, 4032836388, 4032834396),
     (4566749015, 4566751301, 4039360170, 4039358147), (4559451190, 4559453505, 4045825541, 4045823485),
     (4552243457, 4552245802, 4052231444, 4052229355), (4545126257, 4545128632, 4058576821, 4058574699),
     (4538100028, 4538102435, 4064860616, 4064858459), (4531165206, 4531167646, 4071081772, 4071079579),
     (4524322225, 4524324699, 4077239232, 4077237002), (4517571516, 4517574025, 4083331943, 4083329674),
     (4510913507, 4510916052, 4089358851, 4089356543), (4504348624, 4504351206, 4095318905, 4095316557),
     (4497877290, 4497879910, 4101211057, 4101208667), (4491499924, 4491502584, 4107034262, 4107031829),
     (4485216943, 4485219644, 4112787477, 4112785000), (4479028761, 4479031504, 4118469664, 4118467141),
     (4472935788, 4472938575, 4124079788, 4124077217), (4466938431, 4466941264, 4129616819, 4129614199),
     (4461037095, 4461039974, 4135079732, 4135077063), (4455232179, 4455235107, 4140467508, 4140464785),
     (4449524080, 4449527059, 4145779131, 4145776355), (4443913192, 4443916223, 4151013595, 4151010763),
     (4438399904, 4438402989, 4156169898, 4156167008), (4432984601, 4432987743, 4161247046, 4161244096),
     (4427667666, 4427670867, 4166244052, 4166241039), (4422449477, 4422452739, 4171159936, 4171156858),
     (4417330408, 4417333734, 4175993727, 4175990582), (4412310829, 4412314221, 4180744465, 4180741250),
     (4407391106, 4407394568, 4185411195, 4185407906), (4402571602, 4402575136, 4189992973, 4189989609),
     (4397852674, 4397856283, 4194488866, 4194485423), (4393234676, 4393238364, 4198897950, 4198894424),
     (4388717957, 4388721728, 4203219313, 4203215700), (4384302863, 4384306721, 4207452052, 4207448348),
     (4379989736, 4379993685, 4211595275, 4211591477), (4375778912, 4375782957, 4215648104, 4215644206),
     (4371670725, 4371674871, 4219609672, 4219605670), (4367665503, 4367669755, 4223479125, 4223475012),
     (4363763571, 4363767935, 4227255619, 4227251391), (4359965249, 4359969732, 4230938327, 4230933976),
     (4356270855, 4356275463, 4234526431, 4234521951), (4352680702, 4352685443, 4238019129, 4238014512),
     (4349195099, 4349199981, 4241415631, 4241410869), (4345814352, 4345819384, 4244715163, 4244710247),
     (4342538764, 4342543956, 4247916962, 4247911883), (4339368635, 4339373998, 4251020281, 4251015027),
     (4336304261, 4336309808, 4254024387, 4254018944), (4333345938, 4333351682, 4256928558, 4256922914),
     (4330493958, 4330499914, 4259732089, 4259726230), (4327748614, 4327754798, 4262434287, 4262428195),
     (4325110196, 4325116627, 4265034471, 4265028128), (4322578994, 4322585694, 4267531976, 4267525360),
     (4320155301, 4320162293, 4269926146, 4269919235), (4317839411, 4317846722, 4272216338, 4272209103),
     (4315631621, 4315639283, 4274401917, 4274394328), (4313532232, 4313540282, 4276482262, 4276474280),
     (4311541554, 4311550034, 4278456753, 4278448337), (4309659906, 4309668865, 4280324777, 4280315878),
     (4307887618, 4307897116, 4282085725, 4282076283), (4306225038, 4306235145, 4283738986, 4283728930),
     (4304672535, 4304683337, 4285283939, 4285273184), (4303230506, 4303242109, 4286719954, 4286708394),
     (4301899385, 4301911921, 4288046378, 4288033881), (4300679656, 4300693292, 4289262524, 4289248923),
     (4299571868, 4299586822, 4290367656, 4290352733), (4298576660, 4298593225, 4291360963, 4291344425),
     (4297694799, 4297713380, 4292241524, 4292222966), (4296927236, 4296948417, 4293008250, 4292987088),
     (4296275201, 4296299876, 4293659790, 4293635129), (4295740377, 4295770026, 4294194355, 4294164716),
     (4295325242, 4295362629, 4294609380, 4294571999), (4295033890, 4295085396, 4294900704, 4294849199)]"

section \<open>Properties\<close>

subsection \<open>Rounding to float64\<close>

lemma round_even_error: "\<bar>of_int (round_even z) - z\<bar> \<le> 1 / 2"
proof -
  have "of_int \<lfloor>z\<rfloor> \<le> z" "z < of_int \<lfloor>z\<rfloor> + 1" by linarith+
  thus ?thesis by (auto simp: round_even_def)
qed

lemma round_even_of_int [simp]: "round_even (of_int m) = m"
  by (simp add: round_even_def)

lemma round_even_zero [simp]: "round_even 0 = 0"
  by (simp add: round_even_def)

lemma round_even_mono:
  assumes "z \<le> w"
  shows "round_even z \<le> round_even w"
proof (rule ccontr)
  assume "\<not> round_even z \<le> round_even w"
  hence "round_even w + 1 \<le> round_even z" by simp
  hence r: "real_of_int (round_even w) + 1 \<le> real_of_int (round_even z)"
    by (metis of_int_1 of_int_add of_int_le_iff)
  have a: "real_of_int (round_even z) \<le> z + 1 / 2" using round_even_error [of z] by linarith
  have b: "w - 1 / 2 \<le> real_of_int (round_even w)" using round_even_error [of w] by linarith
  from r a b assms have zw: "z = w" by linarith
  with \<open>\<not> round_even z \<le> round_even w\<close> show False by simp
qed

lemma round_even_minus: "round_even (- z) = - round_even z"
proof (cases "z = of_int \<lfloor>z\<rfloor>")
  case True
  then obtain m where "z = of_int m" ..
  then show ?thesis by (simp flip: of_int_minus)
next
  case False
  have "\<lfloor>- z\<rfloor> = - \<lceil>z\<rceil>" by (simp add: ceiling_def)
  also have "\<lceil>z\<rceil> = \<lfloor>z\<rfloor> + 1" using False by (simp add: ceiling_altdef)
  finally have fl: "\<lfloor>- z\<rfloor> = - \<lfloor>z\<rfloor> - 1" by simp
  define f where "f = \<lfloor>z\<rfloor>"
  define d where "d = z - of_int f"
  have d: "- z - of_int (- f - 1) = 1 - d" by (simp add: d_def)
  have ev: "even (- f - 1) \<longleftrightarrow> odd f" by simp
  consider "d < 1 / 2" | "1 / 2 < d" | "d = 1 / 2" by linarith
  then show ?thesis
  proof cases
    case 1
    hence "1 / 2 < 1 - d" by simp
    thus ?thesis using 1 unfolding round_even_def fl f_def [symmetric] d d_def [symmetric]
      by simp
  next
    case 2
    hence "1 - d < 1 / 2" by simp
    thus ?thesis using 2 unfolding round_even_def fl f_def [symmetric] d d_def [symmetric]
      by simp
  next
    case 3
    hence "1 - d = 1 / 2" by simp
    thus ?thesis using 3 unfolding round_even_def fl f_def [symmetric] d d_def [symmetric]
      by (simp add: ev del: even_diff even_minus)
  qed
qed

lemma f64_exponent_normal:
  assumes "2 powr (of_int e) \<le> \<bar>x\<bar>" "\<bar>x\<bar> < 2 powr (of_int e + 1)" "- 1022 \<le> e"
  shows "f64_exponent x = e"
proof -
  have "(2::real) powr (- 1022) \<le> 2 powr (of_int e)"
    using assms(3) by (intro powr_mono) simp_all
  hence n: "\<not> \<bar>x\<bar> < 2 powr (- 1022)" using assms(1) by linarith
  have pos: "0 < \<bar>x\<bar>" using assms(1) by (smt (verit) powr_gt_zero)
  have "\<lfloor>log 2 \<bar>x\<bar>\<rfloor> = e"
    using assms(1,2) pos by (subst floor_log_eq_powr_iff) simp_all
  thus ?thesis using n by (simp add: f64_exponent_def)
qed

lemma f64_exponent_ge: "- 1022 \<le> f64_exponent x"
proof (cases "\<bar>x\<bar> < 2 powr (- 1022)")
  case True
  then show ?thesis by (simp add: f64_exponent_def)
next
  case False
  hence le: "2 powr (- 1022) \<le> \<bar>x\<bar>" by simp
  hence pos: "0 < \<bar>x\<bar>" by (smt (verit) powr_gt_zero)
  have "real_of_int (- 1022) \<le> log 2 \<bar>x\<bar>" using le pos by (simp add: le_log_iff)
  hence "- 1022 \<le> \<lfloor>log 2 \<bar>x\<bar>\<rfloor>" by (simp only: le_floor_iff)
  thus ?thesis using False by (simp add: f64_exponent_def)
qed

lemma f64_exponent_upper: "\<bar>x\<bar> < 2 powr (of_int (f64_exponent x) + 1)"
proof (cases "\<bar>x\<bar> < 2 powr (- 1022)")
  case True
  have "(2::real) powr (- 1022) \<le> 2 powr (- 1021)" by (intro powr_mono) simp_all
  hence "\<bar>x\<bar> < 2 powr (- 1021)" using True by linarith
  thus ?thesis using True by (simp add: f64_exponent_def)
next
  case False
  hence le: "2 powr (- 1022) \<le> \<bar>x\<bar>" by simp
  hence pos: "0 < \<bar>x\<bar>" by (smt (verit) powr_gt_zero)
  have "\<bar>x\<bar> < 2 powr (of_int \<lfloor>log 2 \<bar>x\<bar>\<rfloor> + 1)"
    using floor_log_eq_powr_iff [of "\<bar>x\<bar>" 2 "\<lfloor>log 2 \<bar>x\<bar>\<rfloor>"] pos by simp
  thus ?thesis using False by (simp add: f64_exponent_def)
qed

lemma f64_exponent_lower:
  assumes "2 powr (- 1022) \<le> \<bar>x\<bar>"
  shows "2 powr (of_int (f64_exponent x)) \<le> \<bar>x\<bar>"
proof -
  have pos: "0 < \<bar>x\<bar>" using assms by (smt (verit) powr_gt_zero)
  have "2 powr (of_int \<lfloor>log 2 \<bar>x\<bar>\<rfloor>) \<le> \<bar>x\<bar>"
    using floor_log_eq_powr_iff [of "\<bar>x\<bar>" 2 "\<lfloor>log 2 \<bar>x\<bar>\<rfloor>"] pos by simp
  thus ?thesis using assms by (simp add: f64_exponent_def)
qed

lemma f64_exponent_minus [simp]: "f64_exponent (- x) = f64_exponent x"
  by (simp add: f64_exponent_def)

lemma f64_exponent_mono:
  assumes "\<bar>x\<bar> \<le> \<bar>y\<bar>"
  shows "f64_exponent x \<le> f64_exponent y"
proof (cases "\<bar>x\<bar> < 2 powr (- 1022)")
  case True
  then show ?thesis using f64_exponent_ge [of y] by (simp add: f64_exponent_def)
next
  case False
  hence lx: "2 powr (- 1022) \<le> \<bar>x\<bar>" by simp
  hence ly: "2 powr (- 1022) \<le> \<bar>y\<bar>" using assms by linarith
  have px: "0 < \<bar>x\<bar>" using lx by (smt (verit) powr_gt_zero)
  have "log 2 \<bar>x\<bar> \<le> log 2 \<bar>y\<bar>" using assms px by simp
  hence "\<lfloor>log 2 \<bar>x\<bar>\<rfloor> \<le> \<lfloor>log 2 \<bar>y\<bar>\<rfloor>" by (rule floor_mono)
  thus ?thesis using lx ly by (simp add: f64_exponent_def)
qed

lemma f64_round_minus: "f64_round (- x) = - f64_round x"
  by (simp add: f64_round_def round_even_minus)

lemma f64_round_zero [simp]: "f64_round 0 = 0"
  by (simp add: f64_round_def)

lemma f64_round_nonneg:
  assumes "0 \<le> x"
  shows "0 \<le> f64_round x"
proof -
  have "0 \<le> x / 2 powr (of_int (f64_exponent x) - 52)" using assms by simp
  hence "round_even 0 \<le> round_even (x / 2 powr (of_int (f64_exponent x) - 52))"
    by (rule round_even_mono)
  hence "0 \<le> round_even (x / 2 powr (of_int (f64_exponent x) - 52))"
    by simp
  thus ?thesis by (simp add: f64_round_def)
qed

lemma f64_round_upper:
  assumes "0 \<le> x"
  shows "f64_round x \<le> 2 powr (of_int (f64_exponent x) + 1)"
proof -
  define q :: real where "q = 2 powr (of_int (f64_exponent x) - 52)"
  have q: "0 < q" by (simp add: q_def)
  have e: "2 powr (of_int (f64_exponent x) + 1) = 2 ^ 53 * q"
    unfolding q_def by (simp add: powr_diff powr_add)
  have "x < 2 ^ 53 * q" using f64_exponent_upper [of x] assms by (simp add: e)
  hence "x / q \<le> of_int (2 ^ 53)" using q by (simp add: pos_divide_le_eq)
  hence "round_even (x / q) \<le> round_even (of_int (2 ^ 53))" by (rule round_even_mono)
  hence "round_even (x / q) \<le> 2 ^ 53" by (simp only: round_even_of_int)
  hence "real_of_int (round_even (x / q)) \<le> 2 ^ 53"
    by (metis of_int_le_iff of_int_numeral of_int_power)
  hence "real_of_int (round_even (x / q)) * q \<le> 2 ^ 53 * q" using q by (intro mult_right_mono) simp_all
  thus ?thesis by (simp add: f64_round_def q_def [symmetric] e)
qed

lemma f64_round_lower:
  assumes "2 powr (- 1022) \<le> x"
  shows "2 powr (of_int (f64_exponent x)) \<le> f64_round x"
proof -
  define q :: real where "q = 2 powr (of_int (f64_exponent x) - 52)"
  have q: "0 < q" by (simp add: q_def)
  have x0: "0 \<le> x" using assms by (smt (verit) powr_gt_zero)
  have e: "2 powr (of_int (f64_exponent x)) = 2 ^ 52 * q"
    unfolding q_def by (simp add: powr_diff)
  have "2 ^ 52 * q \<le> x" using f64_exponent_lower [of x] assms x0 by (simp add: e)
  hence "of_int (2 ^ 52) \<le> x / q" using q by (simp add: pos_le_divide_eq)
  hence "round_even (of_int (2 ^ 52)) \<le> round_even (x / q)" by (rule round_even_mono)
  hence "2 ^ 52 \<le> round_even (x / q)" by (simp only: round_even_of_int)
  hence "2 ^ 52 \<le> real_of_int (round_even (x / q))"
    by (metis of_int_le_iff of_int_numeral of_int_power)
  hence "2 ^ 52 * q \<le> real_of_int (round_even (x / q)) * q" using q by (intro mult_right_mono) simp_all
  thus ?thesis by (simp add: f64_round_def q_def [symmetric] e)
qed

lemma f64_round_mono_nonneg:
  assumes "0 \<le> x" "x \<le> y"
  shows "f64_round x \<le> f64_round y"
proof -
  have y0: "0 \<le> y" using assms by simp
  have le: "f64_exponent x \<le> f64_exponent y"
    using assms by (intro f64_exponent_mono) simp
  show ?thesis
  proof (cases "f64_exponent x = f64_exponent y")
    case True
    define q :: real where "q = 2 powr (of_int (f64_exponent y) - 52)"
    have q: "0 < q" by (simp add: q_def)
    have "x / q \<le> y / q" using assms(2) q by (simp add: divide_right_mono)
    hence "round_even (x / q) \<le> round_even (y / q)" by (rule round_even_mono)
    hence "real_of_int (round_even (x / q)) \<le> real_of_int (round_even (y / q))" by simp
    hence "real_of_int (round_even (x / q)) * q \<le> real_of_int (round_even (y / q)) * q"
      using q by (intro mult_right_mono) simp_all
    thus ?thesis by (simp add: f64_round_def True q_def [symmetric])
  next
    case False
    hence lt: "f64_exponent x + 1 \<le> f64_exponent y" using le by simp
    have "- 1022 < f64_exponent y" using lt f64_exponent_ge [of x] by simp
    hence "\<not> \<bar>y\<bar> < 2 powr (- 1022)" by (auto simp: f64_exponent_def)
    hence n: "2 powr (- 1022) \<le> y" using y0 by simp
    have "f64_round x \<le> 2 powr (of_int (f64_exponent x) + 1)"
      by (rule f64_round_upper [OF assms(1)])
    also have "\<dots> \<le> 2 powr (of_int (f64_exponent y))"
    proof (rule powr_mono)
      show "real_of_int (f64_exponent x) + 1 \<le> real_of_int (f64_exponent y)"
        using lt by (metis of_int_1 of_int_add of_int_le_iff)
    qed simp
    also have "\<dots> \<le> f64_round y" by (rule f64_round_lower [OF n])
    finally show ?thesis .
  qed
qed

lemma f64_round_mono:
  assumes "x \<le> y"
  shows "f64_round x \<le> f64_round y"
proof -
  consider "0 \<le> x" | "y \<le> 0" | "x < 0" "0 < y" by linarith
  then show ?thesis
  proof cases
    case 1
    then show ?thesis using assms by (rule f64_round_mono_nonneg)
  next
    case 2
    have "f64_round (- y) \<le> f64_round (- x)"
      using 2 assms by (intro f64_round_mono_nonneg) simp_all
    thus ?thesis by (simp add: f64_round_minus)
  next
    case 3
    have "0 \<le> f64_round (- x)" using 3 by (intro f64_round_nonneg) simp
    hence "f64_round x \<le> 0" by (simp add: f64_round_minus)
    moreover have "0 \<le> f64_round y" using 3 by (intro f64_round_nonneg) simp
    ultimately show ?thesis by simp
  qed
qed

lemma f64_round_scaled:
  assumes "2 ^ 52 \<le> \<bar>x\<bar> * 2 ^ k" "\<bar>x\<bar> * 2 ^ k < 2 ^ 53" "k \<le> 1074"
  shows "f64_round x = of_int (round_even (x * 2 ^ k)) / 2 ^ k"
proof -
  have c: "real_of_int (52 - int k) = 52 - real k" by simp
  have p: "(2::real) powr (52 - real k) = 2 ^ 52 / 2 ^ k"
    by (simp add: powr_diff powr_realpow)
  have p1: "(2::real) powr (52 - real k + 1) = 2 ^ 53 / 2 ^ k"
    by (simp add: powr_diff powr_add powr_realpow)
  have "2 ^ 52 / 2 ^ k \<le> \<bar>x\<bar>" using assms(1) by (simp add: pos_divide_le_eq)
  hence a: "2 powr (of_int (52 - int k)) \<le> \<bar>x\<bar>" by (simp only: c p)
  have "\<bar>x\<bar> < 2 ^ 53 / 2 ^ k" using assms(2) by (simp add: pos_less_divide_eq)
  hence b: "\<bar>x\<bar> < 2 powr (of_int (52 - int k) + 1)" by (simp only: c p1)
  have e: "f64_exponent x = 52 - int k"
    using a b assms(3) by (intro f64_exponent_normal) simp_all
  have q: "(2::real) powr (- real k) = 1 / 2 ^ k"
    by (simp add: powr_minus_divide powr_realpow)
  show ?thesis by (simp add: f64_round_def e q)
qed


subsection \<open>The exact reading: resistance, one RK4 step, the loops\<close>

lemma clamp_pos: "0 < max r (1 / 10 ^ 9 :: real)"
  by (simp add: less_max_iff_disj)

lemma clamp_nonzero: "max r (1 / 10 ^ 9 :: real) \<noteq> 0"
  using clamp_pos [of r] by simp

lemma clamp_max: "(if r < 1 / 10 ^ 9 then 1 / 10 ^ 9 else r) = max r (1 / 10 ^ 9 :: real)"
  by (simp add: max_def not_less)

lemma radicand_range:
  assumes "1 < (x::real)"
  shows "0 < 1 - (1 / x) ^ 2" and "1 - (1 / x) ^ 2 < 1"
proof -
  have "1 / x < 1" "0 < 1 / x" using assms by simp_all
  hence "(1 / x) ^ 2 < 1" "0 < (1 / x) ^ 2" by (simp_all add: power_less_one_iff)
  thus "0 < 1 - (1 / x) ^ 2" and "1 - (1 / x) ^ 2 < 1" by simp_all
qed

lemma resistance_body_eq:
  assumes "L_P < x"
  shows "resistance_body x = Inr (K_INV / max (sqrt (1 - (L_P / x) ^ 2)) (1 / 10 ^ 9))"
proof -
  have x: "1 < x" using assms by (simp add: L_P_def)
  have nn: "\<not> 1 - (L_P / x) ^ 2 < 0" using radicand_range(1) [OF x] by (simp add: L_P_def)
  have x0: "x \<noteq> 0" using x by simp
  show ?thesis
    unfolding resistance_body_def bind_result_def fdiv_def np_sqrt_def Let_def
    using x0 nn by (simp only: if_False sum.case clamp_max clamp_nonzero)
qed

lemma get_resistance_eq:
  "get_resistance x = (if x \<le> L_P then 10 ^ 9 else K_INV / max (sqrt (1 - (L_P / x) ^ 2)) (1 / 10 ^ 9))"
  by (simp add: get_resistance_def resistance_body_eq)

lemma factor_lt_one:
  assumes "L_P < x"
  shows "max (sqrt (1 - (L_P / x) ^ 2)) (1 / 10 ^ 9) < 1"
proof -
  have x: "1 < x" using assms by (simp add: L_P_def)
  have "0 < (1 / x) ^ 2" using x by simp
  hence "1 - (L_P / x) ^ 2 < 1" by (simp add: L_P_def)
  hence "sqrt (1 - (L_P / x) ^ 2) < 1" by (simp only: real_sqrt_lt_1_iff)
  thus ?thesis by simp
qed

lemma get_resistance_bounds: "1 < get_resistance x \<and> get_resistance x \<le> 10 ^ 9"
proof (cases "x \<le> L_P")
  case True
  then show ?thesis by (simp add: get_resistance_eq)
next
  case False
  hence lt: "L_P < x" by simp
  let ?f = "max (sqrt (1 - (L_P / x) ^ 2)) (1 / 10 ^ 9)"
  have f1: "?f < 1" by (rule factor_lt_one [OF lt])
  have f0: "1 / 10 ^ 9 \<le> ?f" by simp
  have fpos: "0 < ?f" by (rule clamp_pos)
  have a: "1 < 1 / ?f" using f1 fpos by simp
  have "1 / ?f \<le> 1 / (1 / 10 ^ 9)" using f0 by (intro divide_left_mono) (simp_all add: fpos)
  hence b: "1 / ?f \<le> 10 ^ 9" by simp
  show ?thesis using a b False by (simp add: get_resistance_eq K_INV_def)
qed

lemma item0_single [simp]: "item0 (x # ys) = Inr x"
  by (simp add: item0_def)

lemma set_item0_single [simp]: "set_item0 (x # ys) v = Inr (v # ys)"
  by (simp add: set_item0_def)

lemma bind_Inr [simp]: "bind_result (Inr v) f = f v"
  by (simp add: bind_result_def)

lemma bind_Inl [simp]: "bind_result (Inl e) f = Inl e"
  by (simp add: bind_result_def)

lemma np_add_single [simp]: "np_add [a] [b] = Inr [a + b]"
  by (simp add: np_add_def)

lemma np_scale_single [simp]: "np_scale c [a] = [a * c]"
  by (simp add: np_scale_def)

lemma np_divide_single [simp]: "np_divide [a] c = [a / c]"
  by (simp add: np_divide_def)

lemma derivatives_standard: "derivatives t (x # ys) ''standard'' = Inr [- v_base]"
  by (simp add: derivatives_def)

lemma get_resistance_nonzero: "get_resistance x \<noteq> 0"
  using get_resistance_bounds [of x] by simp

lemma derivatives_itlt: "derivatives t (x # ys) ''itlt'' = Inr [- v_base / get_resistance x]"
  by (simp add: derivatives_def fdiv_def get_resistance_nonzero)

lemma rk4_step_standard: "rk4_step t [y] dt ''standard'' = Inr [y - v_base * dt]"
  by (simp add: rk4_step_def derivatives_standard field_simps)

lemma rk4_step_itlt: "rk4_step t [y] dt ''itlt'' = Inr [rk4_itlt dt y]"
  by (simp add: rk4_step_def derivatives_itlt rk4_itlt_def slope_def Let_def)

lemma slope_range: "- v_base \<le> slope x \<and> slope x < 0"
proof -
  have r: "1 < get_resistance x" using get_resistance_bounds [of x] by simp
  have "v_base / get_resistance x \<le> v_base / 1"
    using r by (intro divide_left_mono) (simp_all add: v_base_def)
  moreover have "0 < v_base / get_resistance x" using r by (simp add: v_base_def)
  ultimately show ?thesis by (simp add: slope_def)
qed

lemma rk4_itlt_le: "0 \<le> dt \<Longrightarrow> rk4_itlt dt x \<le> x"
proof -
  assume dt: "0 \<le> dt"
  define k1 where "k1 = slope x"
  define k2 where "k2 = slope (x + k1 * dt / 2)"
  define k3 where "k3 = slope (x + k2 * dt / 2)"
  define k4 where "k4 = slope (x + k3 * dt)"
  have "k1 < 0" "k2 < 0" "k3 < 0" "k4 < 0"
    using slope_range by (simp_all add: k1_def k2_def k3_def k4_def)
  hence "k1 + k2 * 2 + k3 * 2 + k4 \<le> 0" by simp
  hence "(k1 + k2 * 2 + k3 * 2 + k4) * (dt / 6) \<le> 0"
    using dt by (simp add: mult_nonpos_nonneg)
  thus ?thesis by (simp add: rk4_itlt_def Let_def k1_def k2_def k3_def k4_def)
qed

lemma update_std_single: "update_std t dt [x] = Inr [std_next dt x]"
  by (simp add: update_std_def rk4_step_standard std_next_def)

lemma update_itlt_single: "update_itlt t dt [x] = Inr [itlt_next dt x]"
  by (simp add: update_itlt_def rk4_step_itlt itlt_next_def)

lemma sim_loop_eq:
  "state_std s = [a] \<Longrightarrow> state_itlt s = [b] \<Longrightarrow>
   sim_loop n dt s = Inr
     \<lparr> t_now = (clock_step dt ^^ n) (t_now s),
       state_std = [(std_next dt ^^ n) a],
       state_itlt = [(itlt_next dt ^^ n) b],
       time_points = time_points s @ map (\<lambda>i. (clock_step dt ^^ i) (t_now s)) [0..<n],
       hist_std = hist_std s @ map (\<lambda>i. (std_next dt ^^ i) a) [0..<n],
       hist_itlt = hist_itlt s @ map (\<lambda>i. (itlt_next dt ^^ i) b) [0..<n] \<rparr>"
proof (induction n arbitrary: s a b)
  case 0
  then show ?case by simp
next
  case (Suc n)
  define s' where "s' = \<lparr> t_now = clock_step dt (t_now s), state_std = [std_next dt a],
      state_itlt = [itlt_next dt b], time_points = time_points s @ [t_now s],
      hist_std = hist_std s @ [a], hist_itlt = hist_itlt s @ [b] \<rparr>"
  have body: "loop_body dt s = Inr s'"
    using Suc.prems
    by (simp add: loop_body_def update_std_single update_itlt_single s'_def clock_step_def)
  have "sim_loop (Suc n) dt s = sim_loop n dt s'" by (simp add: body)
  also have "\<dots> = Inr
     \<lparr> t_now = (clock_step dt ^^ n) (t_now s'),
       state_std = [(std_next dt ^^ n) (std_next dt a)],
       state_itlt = [(itlt_next dt ^^ n) (itlt_next dt b)],
       time_points = time_points s' @ map (\<lambda>i. (clock_step dt ^^ i) (t_now s')) [0..<n],
       hist_std = hist_std s' @ map (\<lambda>i. (std_next dt ^^ i) (std_next dt a)) [0..<n],
       hist_itlt = hist_itlt s' @ map (\<lambda>i. (itlt_next dt ^^ i) (itlt_next dt b)) [0..<n] \<rparr>"
    by (rule Suc.IH) (simp_all add: s'_def)
  finally show ?case
    by (simp add: s'_def map_upt_Suc funpow_Suc_right del: upt_Suc funpow.simps)
qed

lemma calculate_time_dilation_eq:
  "calculate_time_dilation x =
     Inr (if x \<le> 1 then Infinity else Finite (k_inv / sqrt (1 - (1 / x) ^ 2)))"
proof (cases "x \<le> 1")
  case True
  then show ?thesis by (simp add: calculate_time_dilation_def)
next
  case False
  hence x: "1 < x" by simp
  have r: "0 < 1 - (1 / x) ^ 2" by (rule radicand_range(1) [OF x])
  hence "sqrt (1 - (1 / x) ^ 2) \<noteq> 0" by simp
  thus ?thesis using x r
    by (simp add: calculate_time_dilation_def fdiv_def np_sqrt_def)
qed

lemma time_resistance_body_eq:
  assumes "sim_l_p < x"
  shows "time_resistance_body x =
           Inr (sim_k_inv / max (sqrt (1 - (sim_l_p / x) ^ 2)) (1 / 10 ^ 9))"
proof -
  have x: "1 < x" using assms by (simp add: sim_l_p_def)
  have nn: "\<not> 1 - (sim_l_p / x) ^ 2 < 0"
    using radicand_range(1) [OF x] by (simp add: sim_l_p_def)
  have x0: "x \<noteq> 0" using x by simp
  show ?thesis
    unfolding time_resistance_body_def bind_result_def fdiv_def np_sqrt_def Let_def
    using x0 nn by (simp only: if_False sum.case clamp_max clamp_nonzero)
qed

lemma itlt_update_eq: "itlt_update dt x = Inr (euler_itlt dt x)"
proof (cases "sim_l_p < x")
  case True
  have "sim_k_inv / max (sqrt (1 - (sim_l_p / x) ^ 2)) (1 / 10 ^ 9) \<noteq> 0"
    using clamp_nonzero [of "sqrt (1 - (sim_l_p / x) ^ 2)"] by (simp add: sim_k_inv_def)
  thus ?thesis using True
    by (simp add: itlt_update_def time_resistance_body_eq euler_itlt_def fdiv_def Let_def)
next
  case False
  then show ?thesis by (simp add: itlt_update_def euler_itlt_def)
qed

lemma particle_loop_eq:
  "particle_loop n dt s = Inr
     \<lparr> t_cur = (clock_step dt ^^ n) (t_cur s),
       x_class = (classical_update dt ^^ n) (x_class s),
       x_itlt = (euler_itlt dt ^^ n) (x_itlt s),
       time_axis = time_axis s @ map (\<lambda>i. (clock_step dt ^^ i) (t_cur s)) [0..<n],
       dist_classical = dist_classical s @ map (\<lambda>i. (classical_update dt ^^ i) (x_class s)) [0..<n],
       dist_itlt = dist_itlt s @ map (\<lambda>i. (euler_itlt dt ^^ i) (x_itlt s)) [0..<n] \<rparr>"
proof (induction n arbitrary: s)
  case 0
  then show ?case by simp
next
  case (Suc n)
  define s' where "s' = \<lparr> t_cur = clock_step dt (t_cur s),
      x_class = classical_update dt (x_class s),
      x_itlt = euler_itlt dt (x_itlt s), time_axis = time_axis s @ [t_cur s],
      dist_classical = dist_classical s @ [x_class s], dist_itlt = dist_itlt s @ [x_itlt s] \<rparr>"
  have body: "particle_body dt s = Inr s'"
    by (simp add: particle_body_def itlt_update_eq s'_def clock_step_def)
  have "particle_loop (Suc n) dt s = particle_loop n dt s'" by (simp add: body)
  also note Suc.IH [of s']
  finally show ?case
    by (simp add: s'_def map_upt_Suc funpow_Suc_right del: upt_Suc funpow.simps)
qed

lemma simulate_eq:
  "simulate n dt x0 = Inr
     \<lparr> t_now = (clock_step dt ^^ n) 0,
       state_std = [(std_next dt ^^ n) x0],
       state_itlt = [(itlt_next dt ^^ n) x0],
       time_points = map (\<lambda>i. (clock_step dt ^^ i) 0) [0..<n],
       hist_std = map (\<lambda>i. (std_next dt ^^ i) x0) [0..<n],
       hist_itlt = map (\<lambda>i. (itlt_next dt ^^ i) x0) [0..<n] \<rparr>"
  unfolding simulate_def
  by (subst sim_loop_eq [of _ x0 x0]) (simp_all add: init_state_def)

lemma particle_simulate_eq:
  "particle_simulate n dt x0 = Inr
     \<lparr> t_cur = (clock_step dt ^^ n) 0,
       x_class = (classical_update dt ^^ n) x0,
       x_itlt = (euler_itlt dt ^^ n) x0,
       time_axis = map (\<lambda>i. (clock_step dt ^^ i) 0) [0..<n],
       dist_classical = map (\<lambda>i. (classical_update dt ^^ i) x0) [0..<n],
       dist_itlt = map (\<lambda>i. (euler_itlt dt ^^ i) x0) [0..<n] \<rparr>"
  unfolding particle_simulate_def
  by (subst particle_loop_eq) (simp add: particle_init_def)

text \<open>
  Claim C10. On a state vector with at least one element, \<open>derivatives\<close> returns a
  one-element vector when the mode is \<open>'standard'\<close> or \<open>'itlt'\<close> and fails with
  UnboundLocalError for every other mode; so whenever it returns at all, the mode is one
  of the two.
\<close>

theorem derivatives_modes:
  "(mode = ''standard'' \<or> mode = ''itlt'' \<longrightarrow> (\<exists>v. derivatives t (x # ys) mode = Inr [v])) \<and>
   (mode \<noteq> ''standard'' \<and> mode \<noteq> ''itlt'' \<longrightarrow>
      derivatives t (x # ys) mode = Inl UnboundLocalError) \<and>
   ((\<exists>r. derivatives t y mode = Inr r) \<longrightarrow> mode = ''standard'' \<or> mode = ''itlt'')"
proof (intro conjI impI)
  assume "mode = ''standard'' \<or> mode = ''itlt''"
  thus "\<exists>v. derivatives t (x # ys) mode = Inr [v]"
    by (auto simp: derivatives_standard derivatives_itlt)
next
  assume "mode \<noteq> ''standard'' \<and> mode \<noteq> ''itlt''"
  thus "derivatives t (x # ys) mode = Inl UnboundLocalError"
    by (simp add: derivatives_def)
next
  assume "\<exists>r. derivatives t y mode = Inr r"
  thus "mode = ''standard'' \<or> mode = ''itlt''"
    by (cases y) (auto simp: derivatives_def item0_def split: if_splits)
qed

theorem derivatives_modes_witness:
  "(\<exists>v. derivatives 0 [5] ''standard'' = Inr [v]) \<and>
   (\<exists>v. derivatives 0 [5] ''itlt'' = Inr [v]) \<and>
   derivatives 0 [5] ''euler'' = Inl UnboundLocalError"
  using derivatives_modes [of "''standard''" 0 5 "[]" "[5]"]
        derivatives_modes [of "''itlt''" 0 5 "[]" "[5]"]
        derivatives_modes [of "''euler''" 0 5 "[]" "[5]"]
  by simp

lemma funpow_fixed: "f c = c \<Longrightarrow> (f ^^ k) c = c"
  by (induction k) simp_all

lemma funpow_stays:
  assumes "f c = c" "(f ^^ i) x = c" "i \<le> j"
  shows "(f ^^ j) x = c"
proof -
  obtain k where j: "j = k + i" using assms(3) by (metis le_add_diff_inverse2)
  have "(f ^^ j) x = (f ^^ k) ((f ^^ i) x)" by (simp add: j funpow_add)
  thus ?thesis using assms(1,2) by (simp add: funpow_fixed)
qed

lemma std_next_fixed: "std_next dt 0 = 0"
  by (simp add: std_next_def)

lemma itlt_next_fixed: "itlt_next dt L_P = L_P"
  by (simp add: itlt_next_def)

lemma classical_update_fixed: "classical_update dt 0 = 0"
  by (simp add: classical_update_def)

lemma euler_itlt_fixed: "euler_itlt dt sim_l_p = sim_l_p"
  by (simp add: euler_itlt_def)

text \<open>
  Claim C6. In both scripts, once a recorded position of a particle equals its clamp value
  (0 for the Standard particle, the boundary length for the ITLT particle), every later
  recorded position equals it too; at the clamp value the update takes the branch without
  an integration step and returns the clamp value, whatever the time and the step size.
\<close>

theorem clamp_is_permanent:
  "(simulate n dt x0 = Inr s \<and> i \<le> j \<and> j < n \<longrightarrow>
      (hist_std s ! i = 0 \<longrightarrow> hist_std s ! j = 0) \<and>
      (hist_itlt s ! i = L_P \<longrightarrow> hist_itlt s ! j = L_P)) \<and>
   (particle_simulate n dt x0 = Inr p \<and> i \<le> j \<and> j < n \<longrightarrow>
      (dist_classical p ! i = 0 \<longrightarrow> dist_classical p ! j = 0) \<and>
      (dist_itlt p ! i = sim_l_p \<longrightarrow> dist_itlt p ! j = sim_l_p)) \<and>
   update_std t dt [0] = set_item0 [0] 0 \<and> update_std t dt [0] = Inr [0] \<and>
   update_itlt t dt [L_P] = set_item0 [L_P] L_P \<and> update_itlt t dt [L_P] = Inr [L_P] \<and>
   classical_update dt 0 = 0 \<and> itlt_update dt sim_l_p = Inr sim_l_p"
proof (intro conjI impI)
  assume a: "simulate n dt x0 = Inr s \<and> i \<le> j \<and> j < n"
  hence s: "hist_std s = map (\<lambda>i. (std_next dt ^^ i) x0) [0..<n]"
       "hist_itlt s = map (\<lambda>i. (itlt_next dt ^^ i) x0) [0..<n]"
    by (auto simp: simulate_eq)
  from a have ij: "i \<le> j" "j < n" "i < n" by simp_all
  { assume "hist_std s ! i = 0"
    hence "(std_next dt ^^ i) x0 = 0" using ij by (simp add: s)
    hence "(std_next dt ^^ j) x0 = 0"
      using funpow_stays [of "std_next dt" "0" i x0 j] std_next_fixed ij(1) by simp
    thus "hist_std s ! j = 0" using ij by (simp add: s) }
  { assume "hist_itlt s ! i = L_P"
    hence "(itlt_next dt ^^ i) x0 = L_P" using ij by (simp add: s)
    hence "(itlt_next dt ^^ j) x0 = L_P"
      using funpow_stays [of "itlt_next dt" "L_P" i x0 j] itlt_next_fixed ij(1) by simp
    thus "hist_itlt s ! j = L_P" using ij by (simp add: s) }
next
  assume a: "particle_simulate n dt x0 = Inr p \<and> i \<le> j \<and> j < n"
  hence s: "dist_classical p = map (\<lambda>i. (classical_update dt ^^ i) x0) [0..<n]"
       "dist_itlt p = map (\<lambda>i. (euler_itlt dt ^^ i) x0) [0..<n]"
    by (auto simp: particle_simulate_eq)
  from a have ij: "i \<le> j" "j < n" "i < n" by simp_all
  { assume "dist_classical p ! i = 0"
    hence "(classical_update dt ^^ i) x0 = 0" using ij by (simp add: s)
    hence "(classical_update dt ^^ j) x0 = 0"
      using funpow_stays [of "classical_update dt" "0" i x0 j] classical_update_fixed ij(1) by simp
    thus "dist_classical p ! j = 0" using ij by (simp add: s) }
  { assume "dist_itlt p ! i = sim_l_p"
    hence "(euler_itlt dt ^^ i) x0 = sim_l_p" using ij by (simp add: s)
    hence "(euler_itlt dt ^^ j) x0 = sim_l_p"
      using funpow_stays [of "euler_itlt dt" "sim_l_p" i x0 j] euler_itlt_fixed ij(1) by simp
    thus "dist_itlt p ! j = sim_l_p" using ij by (simp add: s) }
next
  show "update_std t dt [0] = set_item0 [0] 0" by (simp add: update_std_def)
  show "update_std t dt [0] = Inr [0]" by (simp add: update_std_def)
  show "update_itlt t dt [L_P] = set_item0 [L_P] L_P" by (simp add: update_itlt_def)
  show "update_itlt t dt [L_P] = Inr [L_P]" by (simp add: update_itlt_def)
  show "classical_update dt 0 = 0" by (rule classical_update_fixed)
  show "itlt_update dt sim_l_p = Inr sim_l_p" by (simp add: itlt_update_def)
qed

theorem clamp_is_permanent_witness:
  "\<exists>s p. simulate 4 1 1 = Inr s \<and> particle_simulate 4 1 1 = Inr p \<and>
         hist_std s ! 2 = 0 \<and> hist_std s ! 3 = 0 \<and>
         hist_itlt s ! 2 = L_P \<and> hist_itlt s ! 3 = L_P \<and>
         dist_classical p ! 2 = 0 \<and> dist_classical p ! 3 = 0 \<and>
         dist_itlt p ! 2 = sim_l_p \<and> dist_itlt p ! 3 = sim_l_p"
proof -
  obtain s where s: "simulate 4 1 1 = Inr s" by (simp add: simulate_eq)
  obtain p where p: "particle_simulate 4 1 1 = Inr p" by (simp add: particle_simulate_eq)
  have hs: "hist_std s ! 2 = 0" "hist_itlt s ! 2 = L_P"
    using s by (auto simp: simulate_eq eval_nat_numeral std_next_def itlt_next_def
        v_base_def L_P_def)
  have hp: "dist_classical p ! 2 = 0" "dist_itlt p ! 2 = sim_l_p"
    using p by (auto simp: particle_simulate_eq eval_nat_numeral classical_update_def
        classical_move_def euler_itlt_def v_infall_def sim_l_p_def)
  from clamp_is_permanent [of 4 1 1 s 2 3 p] s p hs hp
  have "hist_std s ! 3 = 0" "hist_itlt s ! 3 = L_P"
       "dist_classical p ! 3 = 0" "dist_itlt p ! 3 = sim_l_p" by simp_all
  thus ?thesis using s p hs hp by simp
qed

subsection \<open>Containment and monotonicity of the RK4 run\<close>

lemma std_next_nonneg: "0 \<le> std_next dt x"
  by (simp add: std_next_def)

lemma itlt_next_ge: "L_P \<le> itlt_next dt x"
  by (simp add: itlt_next_def)

lemma std_iter_nonneg: "0 \<le> x \<Longrightarrow> 0 \<le> (std_next dt ^^ i) x"
  by (cases i) (simp_all add: std_next_nonneg)

lemma itlt_iter_ge: "L_P \<le> x \<Longrightarrow> L_P \<le> (itlt_next dt ^^ i) x"
  by (cases i) (simp_all add: itlt_next_ge)

lemma std_next_le: "0 \<le> dt \<Longrightarrow> 0 \<le> x \<Longrightarrow> std_next dt x \<le> x"
  by (simp add: std_next_def v_base_def)

lemma itlt_next_le: "0 \<le> dt \<Longrightarrow> L_P \<le> x \<Longrightarrow> itlt_next dt x \<le> x"
  using rk4_itlt_le [of dt x] by (simp add: itlt_next_def)

text \<open>
  The run of Adwanced\_simulation.py keeps what claims C2 and C5 ask: from a start
  position at or above the boundary every recorded ITLT position is at least \<open>L_P\<close> and
  every recorded Standard position at least 0, and with a step size that is not negative
  both recorded sequences are non-increasing.
\<close>

lemma rk4_run_contained:
  assumes "simulate n dt x0 = Inr s" "L_P \<le> x0" "i < n"
  shows "L_P \<le> hist_itlt s ! i \<and> 0 \<le> hist_std s ! i"
proof -
  have "0 \<le> x0" using assms(2) by (simp add: L_P_def)
  thus ?thesis using assms by (auto simp: simulate_eq std_iter_nonneg itlt_iter_ge)
qed

lemma rk4_run_monotone:
  assumes "simulate n dt x0 = Inr s" "0 \<le> dt" "L_P \<le> x0" "Suc i < n"
  shows "hist_std s ! Suc i \<le> hist_std s ! i \<and> hist_itlt s ! Suc i \<le> hist_itlt s ! i"
proof -
  have x0: "0 \<le> x0" using assms(3) by (simp add: L_P_def)
  have a: "std_next dt ((std_next dt ^^ i) x0) \<le> (std_next dt ^^ i) x0"
    by (rule std_next_le [OF assms(2) std_iter_nonneg [OF x0]])
  have b: "itlt_next dt ((itlt_next dt ^^ i) x0) \<le> (itlt_next dt ^^ i) x0"
    by (rule itlt_next_le [OF assms(2) itlt_iter_ge [OF assms(3)]])
  have i: "i < n" using assms(4) by simp
  show ?thesis using assms(1,4) i a b by (auto simp: simulate_eq simp del: upt_Suc)
qed

subsection \<open>The Euler run leaves the bounds\<close>

lemma classical_iter:
  "0 \<le> dt \<Longrightarrow> 0 < x - real k * (v_infall * dt) \<Longrightarrow>
   (classical_update dt ^^ Suc k) x = x - real (Suc k) * (v_infall * dt)"
proof (induction k)
  case 0
  then show ?case by (simp add: classical_update_def classical_move_def)
next
  case (Suc k)
  have c: "0 \<le> v_infall * dt" using Suc.prems(1) by (simp add: v_infall_def)
  have pos: "0 < x - real (Suc k) * (v_infall * dt)" by (rule Suc.prems(2))
  hence "0 < x - real k * (v_infall * dt)" using c by (simp add: algebra_simps)
  hence "(classical_update dt ^^ Suc k) x = x - real (Suc k) * (v_infall * dt)"
    using Suc.IH Suc.prems(1) by simp
  hence "(classical_update dt ^^ Suc (Suc k)) x
           = classical_update dt (x - real (Suc k) * (v_infall * dt))" by simp
  also have "\<dots> = x - real (Suc k) * (v_infall * dt) - v_infall * dt"
    using pos by (simp only: classical_update_def classical_move_def if_True)
  finally show ?case by (simp add: algebra_simps)
qed

lemma near_boundary_step:
  "euler_itlt (1 / 100) (131073 / 131072) < 1"
proof -
  let ?r = "1 - (sim_l_p / (131073 / 131072)) ^ 2"
  have "(25 / 16384) ^ 2 < ?r" by (simp add: sim_l_p_def power2_eq_square)
  hence "25 / 16384 < sqrt ?r" by (intro real_less_rsqrt)
  hence m: "25 / 16384 < max (sqrt ?r) (1 / 10 ^ 9)" by (simp add: less_max_iff_disj)
  have "euler_itlt (1 / 100) (131073 / 131072)
          = 131073 / 131072 - max (sqrt ?r) (1 / 10 ^ 9) / 200"
    by (simp add: euler_itlt_def sim_l_p_def sim_k_inv_def v_infall_def)
  thus ?thesis using m by simp
qed

lemma classical_at_201:
  "(classical_update sim_dt ^^ 201) (131073 / 131072) = 131073 / 131072 - 201 / 200"
proof -
  have "(classical_update sim_dt ^^ Suc 200) (131073 / 131072)
          = 131073 / 131072 - real (Suc 200) * (v_infall * sim_dt)"
    by (rule classical_iter) (simp_all add: sim_dt_def v_infall_def)
  thus ?thesis by (simp add: sim_dt_def v_infall_def)
qed

lemma euler_at_1: "(euler_itlt sim_dt ^^ 1) (131073 / 131072) < sim_l_p"
  using near_boundary_step by (simp add: sim_dt_def sim_l_p_def)

lemma particle_samples:
  "i < n \<Longrightarrow> particle_simulate n dt x0 = Inr p \<Longrightarrow>
   dist_itlt p ! i = (euler_itlt dt ^^ i) x0 \<and>
   dist_classical p ! i = (classical_update dt ^^ i) x0"
  by (auto simp: particle_simulate_eq)

subsection \<open>The curve sampler\<close>

lemma np_linspace_eq:
  assumes "1 < n"
  shows "np_linspace a b n = map (\<lambda>i. a + real i * (b - a) / real (n - 1)) [0..<n]"
proof -
  let ?y = "map (\<lambda>i. real i * ((b - a) / real (n - 1)) + a) [0..<n]"
  have "?y ! (n - 1) = b" using assms by simp
  hence "?y[n - 1 := b] = ?y" using assms by (simp add: list_update_same_conv)
  hence "np_linspace a b n = ?y" using assms by (simp add: np_linspace_def Let_def)
  thus ?thesis by (simp add: add.commute)
qed

lemma np_linspace_length: "length (np_linspace a b n) = n"
  by (simp add: np_linspace_def Let_def)

lemma np_linspace_nth:
  "1 < n \<Longrightarrow> i < n \<Longrightarrow> np_linspace a b n ! i = a + real i * (b - a) / real (n - 1)"
  by (simp add: np_linspace_eq)

lemma np_linspace_sorted:
  assumes "1 < n" "a \<le> b"
  shows "sorted (np_linspace a b n)"
proof -
  have "real i * (b - a) / real (n - 1) \<le> real j * (b - a) / real (n - 1)" if "i \<le> j" for i j
    using that assms by (intro divide_right_mono mult_right_mono) simp_all
  thus ?thesis using assms(1) by (simp add: sorted_iff_nth_mono np_linspace_length np_linspace_nth)
qed

lemma np_linspace_bounds:
  assumes "1 < n" "a \<le> b" "x \<in> set (np_linspace a b n)"
  shows "a \<le> x \<and> x \<le> b"
proof -
  from assms(3) obtain i where i: "i < n" "x = a + real i * (b - a) / real (n - 1)"
    using assms(1) by (auto simp: np_linspace_eq)
  have lo: "0 \<le> real i * (b - a) / real (n - 1)" using assms by simp
  have "real i * (b - a) / real (n - 1) \<le> real (n - 1) * (b - a) / real (n - 1)"
    using i(1) assms by (intro divide_right_mono mult_right_mono) simp_all
  hence hi: "real i * (b - a) / real (n - 1) \<le> b - a" using assms(1) by simp
  show ?thesis using lo hi by (simp add: i(2))
qed

lemma bands_sorted:
  "sorted (np_linspace (1001 / 1000) (11 / 10) 50
           @ np_linspace (11 / 10) (5 / 2) 50 @ np_linspace (5 / 2) 10 50)"
proof -
  have s: "sorted (np_linspace (1001 / 1000) (11 / 10) 50)"
          "sorted (np_linspace (11 / 10) (5 / 2) 50)"
          "sorted (np_linspace (5 / 2) 10 50)"
    by (rule np_linspace_sorted; simp)+
  have b1: "x \<le> 11 / 10" if "x \<in> set (np_linspace (1001 / 1000) (11 / 10) 50)" for x
    using np_linspace_bounds [OF _ _ that] by simp
  have b2: "11 / 10 \<le> x \<and> x \<le> 5 / 2" if "x \<in> set (np_linspace (11 / 10) (5 / 2) 50)" for x
    using np_linspace_bounds [OF _ _ that] by simp
  have b3: "5 / 2 \<le> x" if "x \<in> set (np_linspace (5 / 2) 10 50)" for x
    using np_linspace_bounds [OF _ _ that] by simp
  show ?thesis using s b1 b2 b3 by (fastforce simp: sorted_append)
qed

lemma x_factors_eq:
  "x_factors = np_linspace (1001 / 1000) (11 / 10) 50
               @ np_linspace (11 / 10) (5 / 2) 50 @ np_linspace (5 / 2) 10 50"
  unfolding x_factors_def by (rule sorted_sort_id [OF bands_sorted])

lemma x_factors_nth:
  "x_factors ! 0 = 1001 / 1000" "x_factors ! 49 = 11 / 10" "x_factors ! 50 = 11 / 10"
  "x_factors ! 99 = 5 / 2" "x_factors ! 100 = 5 / 2" "x_factors ! 149 = 10"
  by (simp_all add: x_factors_eq nth_append np_linspace_length np_linspace_nth)

lemma x_factors_length: "length x_factors = 150"
  by (simp add: x_factors_eq np_linspace_length)

lemma map_result_total: "(\<And>x. f x = Inr (g x)) \<Longrightarrow> map_result f xs = Inr (map g xs)"
  by (induction xs) simp_all

lemma t_p_pos: "0 < t_p"
  by (simp add: t_p_def)

lemma div_t_p_eq:
  "div_t_p t = Inr (case t of Infinity \<Rightarrow> Infinity | Finite v \<Rightarrow> Finite (v / t_p))"
  using t_p_pos by (cases t) (simp_all add: div_t_p_def fdiv_def)

lemma t_values_eq:
  "t_values = Inr (map (\<lambda>x. if x \<le> 1 then Infinity
                              else Finite (k_inv / sqrt (1 - (1 / x) ^ 2))) x_factors)"
  unfolding t_values_def by (rule map_result_total) (rule calculate_time_dilation_eq)

lemma dilation_factors_eq:
  "dilation_factors =
     Inr (map (\<lambda>t. case t of Infinity \<Rightarrow> Infinity | Finite v \<Rightarrow> Finite (v / t_p))
            (map (\<lambda>x. if x \<le> 1 then Infinity
                       else Finite (k_inv / sqrt (1 - (1 / x) ^ 2))) x_factors))"
  unfolding dilation_factors_def t_values_eq bind_Inr
  by (rule map_result_total) (rule div_t_p_eq)

lemma data_rows_eq:
  "data_rows = Inr (map (\<lambda>x. (x,
       (if x \<le> 1 then Infinity else Finite (k_inv / sqrt (1 - (1 / x) ^ 2))),
       (if x \<le> 1 then Infinity else Finite (k_inv / sqrt (1 - (1 / x) ^ 2) / t_p)))) x_factors)"
  unfolding data_rows_def t_values_eq dilation_factors_eq bind_Inr
  by (simp add: zip_map2 zip_map_map list_eq_iff_nth_eq)

text \<open>
  Claim C7. The sampler's distance factors are the three bands of 50 evenly spaced
  points each, concatenated; the concatenation is already ascending, so sorting changes
  nothing. There are 150 of them, the first is 1.001 and the last 10, and the shared band
  ends 1.1 and 2.5 each occur twice, at neighbouring indices. The table has one row for
  each distance factor, in that order.
\<close>

theorem curve_sampler_rows:
  "length x_factors = 150 \<and>
   x_factors = np_linspace (1001 / 1000) (11 / 10) 50
               @ np_linspace (11 / 10) (5 / 2) 50 @ np_linspace (5 / 2) 10 50 \<and>
   np_linspace a b 50 = map (\<lambda>i. a + real i * (b - a) / 49) [0..<50] \<and>
   sorted x_factors \<and>
   x_factors ! 0 = 1001 / 1000 \<and> x_factors ! 149 = 10 \<and>
   x_factors ! 49 = 11 / 10 \<and> x_factors ! 50 = 11 / 10 \<and>
   x_factors ! 99 = 5 / 2 \<and> x_factors ! 100 = 5 / 2 \<and>
   \<not> distinct x_factors \<and>
   (\<exists>rows. data_rows = Inr rows \<and> length rows = 150 \<and> map fst rows = x_factors)"
proof (intro conjI)
  show "length x_factors = 150" by (rule x_factors_length)
  show "x_factors = np_linspace (1001 / 1000) (11 / 10) 50
               @ np_linspace (11 / 10) (5 / 2) 50 @ np_linspace (5 / 2) 10 50"
    by (rule x_factors_eq)
  show "np_linspace a b 50 = map (\<lambda>i. a + real i * (b - a) / 49) [0..<50]"
    by (subst np_linspace_eq) simp_all
  show "sorted x_factors" using bands_sorted by (simp only: x_factors_eq)
  show "x_factors ! 0 = 1001 / 1000" "x_factors ! 149 = 10" "x_factors ! 49 = 11 / 10"
       "x_factors ! 50 = 11 / 10" "x_factors ! 99 = 5 / 2" "x_factors ! 100 = 5 / 2"
    by (rule x_factors_nth)+
  show "\<not> distinct x_factors"
  proof
    assume "distinct x_factors"
    hence "x_factors ! 49 \<noteq> x_factors ! 50"
      by (simp add: nth_eq_iff_index_eq x_factors_length)
    thus False by (simp add: x_factors_nth)
  qed
  show "\<exists>rows. data_rows = Inr rows \<and> length rows = 150 \<and> map fst rows = x_factors"
    by (simp add: data_rows_eq x_factors_length o_def)
qed

text \<open>
  Claim C8, as stated, fails. The dilation ratio of the distance factor 10 is the time
  dilation value divided by \<open>t_p\<close>, and \<open>k_inv\<close> is \<open>t_p\<close>: the ratio is
  \<open>1 / sqrt (1 - 0.01)\<close>, about 1.005, and differs from
  \<open>k_inv / sqrt (1 - 0.01)\<close>, about \<open>5.4e-44\<close>, by more than 1.
\<close>

theorem dilation_ratio_counterexample:
  "bind_result (calculate_time_dilation 10) div_t_p = Inr (Finite (1 / sqrt (1 - 1 / 100))) \<and>
   1 < 1 / sqrt (1 - 1 / 100) - k_inv / sqrt (1 - 1 / 100)"
proof
  have "k_inv / t_p = 1" using t_p_pos by (simp add: k_inv_def)
  hence "k_inv / sqrt (1 - (1 / 10) ^ 2) / t_p = 1 / sqrt (1 - 1 / 100)"
    by (simp add: power2_eq_square field_simps)
  thus "bind_result (calculate_time_dilation 10) div_t_p = Inr (Finite (1 / sqrt (1 - 1 / 100)))"
    by (simp add: calculate_time_dilation_eq div_t_p_eq power2_eq_square)
next
  have "(1 - 1 / 100 :: real) < (1 - k_inv) ^ 2"
    by (simp add: k_inv_def t_p_def power2_eq_square)
  moreover have "0 \<le> 1 - k_inv" by (simp add: k_inv_def t_p_def)
  ultimately have "sqrt (1 - 1 / 100) < 1 - k_inv" by (intro real_less_lsqrt)
  moreover have "0 < sqrt (1 - 1 / 100 :: real)" by simp
  ultimately have "1 < (1 - k_inv) / sqrt (1 - 1 / 100)" by (simp only: less_divide_eq_1_pos)
  thus "1 < 1 / sqrt (1 - 1 / 100) - k_inv / sqrt (1 - 1 / 100)" by (simp add: diff_divide_distrib)
qed

text \<open>
  Claim C8, amended. The row of the distance factor 10 is the last row of the table. Its
  time dilation value is \<open>k_inv / sqrt (1 - 0.01)\<close>, and its dilation ratio is that value
  divided by \<open>t_p\<close>; since \<open>k_inv = t_p\<close> the ratio is the finite number
  \<open>1 / sqrt (1 - 0.01)\<close>, between 1.005 and 1.006.
\<close>

theorem dilation_ratio_at_ten:
  "\<exists>rows. data_rows = Inr rows \<and> length rows = 150 \<and>
     rows ! 149 = (10, Finite (k_inv / sqrt (1 - 1 / 100)),
                       Finite (k_inv / sqrt (1 - 1 / 100) / t_p)) \<and>
     k_inv = t_p \<and>
     k_inv / sqrt (1 - 1 / 100) / t_p = 1 / sqrt (1 - 1 / 100) \<and>
     1005 / 1000 < 1 / sqrt (1 - 1 / 100) \<and> 1 / sqrt (1 - 1 / 100) < 1006 / 1000"
proof -
  have r: "k_inv / sqrt (1 - 1 / 100) / t_p = 1 / sqrt (1 - 1 / 100)"
    using t_p_pos by (simp add: k_inv_def)
  have "sqrt (1 - 1 / 100) < 1000 / 1005"
    by (intro real_less_lsqrt) (simp_all add: power2_eq_square)
  hence lo: "1005 / 1000 < 1 / sqrt (1 - 1 / 100)" by (simp add: field_simps)
  have "1000 / 1006 < sqrt (1 - 1 / 100)"
    by (intro real_less_rsqrt) (simp add: power2_eq_square)
  hence hi: "1 / sqrt (1 - 1 / 100) < 1006 / 1000" by (simp add: field_simps)
  obtain rows where rows: "data_rows = Inr rows" and rows_eq: "rows = map (\<lambda>x. (x,
       (if x \<le> 1 then Infinity else Finite (k_inv / sqrt (1 - (1 / x) ^ 2))),
       (if x \<le> 1 then Infinity else Finite (k_inv / sqrt (1 - (1 / x) ^ 2) / t_p)))) x_factors"
    by (simp add: data_rows_eq)
  have len: "length rows = 150" by (simp add: rows_eq x_factors_length)
  have "(1 / 10 :: real) ^ 2 = 1 / 100" by (simp add: power2_eq_square)
  hence row: "rows ! 149 = (10, Finite (k_inv / sqrt (1 - 1 / 100)),
                       Finite (k_inv / sqrt (1 - 1 / 100) / t_p))"
    by (simp add: rows_eq x_factors_length x_factors_nth)
  have k: "k_inv = t_p" by (rule k_inv_def)
  show ?thesis using rows len row k r lo hi by blast
qed

subsection \<open>Concrete roundings\<close>

lemma f64_m1: "f64_round (- 1) = - 1"
  by (subst f64_round_scaled [of _ 52]) (simp_all add: round_even_def)

lemma f64_m32: "f64_round (- (3 / 2)) = - (3 / 2)"
  by (subst f64_round_scaled [of _ 52]) (simp_all add: round_even_def)

lemma f64_m52: "f64_round (- (5 / 2)) = - (5 / 2)"
  by (subst f64_round_scaled [of _ 51]) (simp_all add: round_even_def)

lemma f64_m3: "f64_round (- 3) = - 3"
  by (subst f64_round_scaled [of _ 51]) (simp_all add: round_even_def)

lemma f64_y: "f64_round (1 / 5) = 3602879701896397 / 18014398509481984"
  by (subst f64_round_scaled [of _ 55]) (simp_all add: round_even_def)

lemma f64_dt: "f64_round (9 / 10) = 8106479329266893 / 9007199254740992"
  by (subst f64_round_scaled [of _ 53]) (simp_all add: round_even_def)

lemma f64_h: "f64_round (8106479329266893 / 54043195528445952) = 5404319552844595 / 36028797018963968"
  by (subst f64_round_scaled [of _ 55]) (simp_all add: round_even_def)

lemma f64_inc: "f64_round (- (16212958658533785 / 36028797018963968)) = - (2026619832316723 / 4503599627370496)"
  by (subst f64_round_scaled [of _ 54]) (simp_all add: round_even_def)

lemma f64_r: "f64_round (- (4503599627370495 / 18014398509481984)) = - (4503599627370495 / 18014398509481984)"
  by (subst f64_round_scaled [of _ 55]) (simp_all add: round_even_def)

lemma f64_half: "f64_round (8106479329266893 / 18014398509481984) = 8106479329266893 / 18014398509481984"
  by (subst f64_round_scaled [of _ 54]) (simp_all add: round_even_def)

lemma f64_e: "f64_round (- (1 / 4)) = - (1 / 4)"
  by (subst f64_round_scaled [of _ 54]) (simp_all add: round_even_def)

lemma f64_hD: "f64_round (5764607523034235 / 3458764513820540928) = 7686143364045647 / 4611686018427387904"
  by (subst f64_round_scaled [of _ 62]) (simp_all add: round_even_def)

lemma f64_incD: "f64_round (- (23058430092136941 / 4611686018427387904)) = - (5764607523034235 / 1152921504606846976)"
  by (subst f64_round_scaled [of _ 60]) (simp_all add: round_even_def)

lemma f64_halfD: "f64_round (5764607523034235 / 1152921504606846976) = 5764607523034235 / 1152921504606846976"
  by (subst f64_round_scaled [of _ 60]) (simp_all add: round_even_def)

lemma f64_DT: "f64_round (1 / 100) = 5764607523034235 / 576460752303423488"
  by (subst f64_round_scaled [of _ 59]) (simp_all add: round_even_def)

lemma clock_step_DT: "clock_step (1 / 100) t = f64_round (t + 5764607523034235 / 576460752303423488)"
  by (simp add: clock_step_def f64_add_def f64_DT)

lemma clock_1: "f64_round (5764607523034235 / 576460752303423488) = 5764607523034235 / 576460752303423488"
  by (subst f64_round_scaled [of _ 59]) (simp_all add: round_even_def)

lemma clock_2: "f64_round (5764607523034235 / 288230376151711744) = 5764607523034235 / 288230376151711744"
  by (subst f64_round_scaled [of _ 58]) (simp_all add: round_even_def)

lemma clock_3: "f64_round (17293822569102705 / 576460752303423488) = 1080863910568919 / 36028797018963968"
  by (subst f64_round_scaled [of _ 58]) (simp_all add: round_even_def)

lemma clock_4: "f64_round (23058430092136939 / 576460752303423488) = 5764607523034235 / 144115188075855872"
  by (subst f64_round_scaled [of _ 57]) (simp_all add: round_even_def)

lemma clock_5: "f64_round (28823037615171175 / 576460752303423488) = 3602879701896397 / 72057594037927936"
  by (subst f64_round_scaled [of _ 57]) (simp_all add: round_even_def)

lemma clock_6: "f64_round (34587645138205411 / 576460752303423488) = 8646911284551353 / 144115188075855872"
  by (subst f64_round_scaled [of _ 57]) (simp_all add: round_even_def)

lemma clock_at_6: "(clock_step (1 / 100) ^^ 6) 0 = 8646911284551353 / 144115188075855872"
  by (simp add: eval_nat_numeral clock_step_DT clock_1 clock_2 clock_3 clock_4 clock_5 clock_6)

lemma six_DT: "f64_round (17293822569102705 / 288230376151711744) = 1080863910568919 / 18014398509481984"
  by (subst f64_round_scaled [of _ 57]) (simp_all add: round_even_def)

subsection \<open>One RK4 step in Standard mode, float64 reading\<close>

lemma derivatives_f64_standard: "derivatives_f64 t (x # ys) ''standard'' = Inr [- v_base]"
  by (simp add: derivatives_f64_def)

lemma np_add_f64_single [simp]: "np_add_f64 [a] [b] = Inr [f64_add a b]"
  by (simp add: np_add_f64_def)

lemma np_scale_f64_single [simp]: "np_scale_f64 c [a] = [f64_mul a c]"
  by (simp add: np_scale_f64_def)

lemma np_divide_f64_single [simp]: "np_divide_f64 [a] c = [f64_round (a / c)]"
  by (simp add: np_divide_f64_def)

lemma stage_sum_f64:
  "f64_add (f64_add (f64_add (- v_base) (f64_mul (- v_base) 2)) (f64_mul (- v_base) 2)) (- v_base)
     = - 3"
  by (simp add: f64_add_def f64_mul_def v_base_def f64_m1 f64_m32 f64_m52 f64_m3)

lemma rk4_step_f64_standard:
  "rk4_step_f64 t [y] dt ''standard'' = Inr [f64_add y (f64_mul (- 3) (f64_round (dt / 6)))]"
  by (simp add: rk4_step_f64_def derivatives_f64_standard stage_sum_f64)

text \<open>
  Claim C1, as stated, fails in float64. From \<open>y = 0.2\<close> with \<open>dt = 0.9\<close> one RK4 step
  in Standard mode returns \<open>-0.24999999999999994\<close>, while \<open>y - base_velocity * dt\<close>,
  the Euler script's update, is \<open>-0.25\<close>, both in float64 and exactly.
\<close>

theorem rk4_standard_counterexample:
  "rk4_step_f64 0 [f64_round (1 / 5)] (f64_round (9 / 10)) ''standard''
     = Inr [- (4503599627370495 / 18014398509481984)] \<and>
   classical_move_f64 (f64_round (9 / 10)) (f64_round (1 / 5)) = - (1 / 4) \<and>
   f64_round (1 / 5) - v_base * f64_round (9 / 10) = - (1 / 4) \<and>
   - (4503599627370495 / 18014398509481984) \<noteq> (- (1 / 4) :: real)"
proof (intro conjI)
  show "rk4_step_f64 0 [f64_round (1 / 5)] (f64_round (9 / 10)) ''standard''
     = Inr [- (4503599627370495 / 18014398509481984)]"
    by (simp add: rk4_step_f64_standard f64_add_def f64_mul_def f64_y f64_dt f64_h f64_inc f64_r)
  show "classical_move_f64 (f64_round (9 / 10)) (f64_round (1 / 5)) = - (1 / 4)"
    by (simp add: classical_move_f64_def f64_sub_def f64_mul_def v_infall_def f64_y f64_dt
        f64_half f64_e)
  show "f64_round (1 / 5) - v_base * f64_round (9 / 10) = - (1 / 4)"
    by (simp add: v_base_def f64_y f64_dt)
  show "- (4503599627370495 / 18014398509481984) \<noteq> (- (1 / 4) :: real)" by simp
qed

text \<open>
  Claim C1, amended. In Standard mode every stage of the RK4 step is the constant
  \<open>- v_base\<close>, whatever the time and the state, so the weighted sum of the stages is
  exactly \<open>-3\<close> and one step returns the float64 value of \<open>y + (dt / 6) * (-3)\<close>, each
  operation rounded. In exact arithmetic the increment \<open>(dt / 6) * (-3)\<close> is
  \<open>- (v_base * dt)\<close>. At the step size \<open>0.01\<close> of the two scripts the rounded increment
  is the rounded \<open>- (v_infall * dt)\<close> itself, so there the RK4 step and
  \<open>x_class -= v_infall * dt\<close> return the same float64 for every position.
\<close>

theorem rk4_standard_f64:
  assumes "\<bar>y\<bar> \<le> 2 ^ 1000" and "\<bar>dt\<bar> \<le> 2 ^ 1000"
  shows "derivatives_f64 t' (x # ys) ''standard'' = Inr [- v_base] \<and>
   rk4_step_f64 t [y] dt ''standard'' = Inr [f64_add y (f64_mul (- 3) (f64_round (dt / 6)))] \<and>
   dt / 6 * (- 3) = - (v_base * dt) \<and>
   f64_mul (- 3) (f64_round (f64_round DT / 6)) = - f64_mul v_infall (f64_round sim_dt) \<and>
   rk4_step_f64 t [y] (f64_round DT) ''standard''
     = Inr [classical_move_f64 (f64_round sim_dt) y]"
proof (intro conjI)
  show "derivatives_f64 t' (x # ys) ''standard'' = Inr [- v_base]"
    by (rule derivatives_f64_standard)
  show "rk4_step_f64 t [y] dt ''standard''
          = Inr [f64_add y (f64_mul (- 3) (f64_round (dt / 6)))]"
    by (rule rk4_step_f64_standard)
  show "dt / 6 * (- 3) = - (v_base * dt)" by (simp add: v_base_def)
  show inc: "f64_mul (- 3) (f64_round (f64_round DT / 6)) = - f64_mul v_infall (f64_round sim_dt)"
    by (simp add: f64_mul_def DT_def sim_dt_def v_infall_def f64_DT f64_hD f64_incD f64_halfD)
  show "rk4_step_f64 t [y] (f64_round DT) ''standard''
     = Inr [classical_move_f64 (f64_round sim_dt) y]"
    by (simp add: rk4_step_f64_standard inc classical_move_f64_def f64_add_def f64_sub_def)
qed

theorem rk4_standard_f64_witness:
  "rk4_step_f64 0 [5] (f64_round DT) ''standard'' = Inr [classical_move_f64 (f64_round sim_dt) 5]"
  using rk4_standard_f64 [of 5 DT 0 0 "[]" 0] by (simp add: DT_def)

subsection \<open>The recorded samples and the clock\<close>

lemma clock_step_funpow:
  "(clock_step dt ^^ i) t = ((\<lambda>t. f64_add t (f64_round dt)) ^^ i) t"
proof -
  have "clock_step dt = (\<lambda>t. f64_add t (f64_round dt))" by (rule ext) (simp add: clock_step_def)
  thus ?thesis by simp
qed

text \<open>
  Claim C4, as stated, fails in float64. The clock is not \<open>i * dt\<close> but the sum of \<open>i\<close>
  rounded additions of the step: in the run each script makes, the time recorded at index 6
  is \<open>0.060000000000000005\<close>, which is neither the exact product of 6 and the float64
  step, nor its rounded product \<open>0.06\<close>, nor 6 times the decimal \<open>0.01\<close>.
\<close>

theorem clock_counterexample:
  "time_points (projr run_simulation) ! 6 = 8646911284551353 / 144115188075855872 \<and>
   time_axis (projr run_particle_simulation) ! 6 = 8646911284551353 / 144115188075855872 \<and>
   8646911284551353 / 144115188075855872 \<noteq> 6 * f64_round DT \<and>
   8646911284551353 / 144115188075855872 \<noteq> f64_mul 6 (f64_round DT) \<and>
   8646911284551353 / 144115188075855872 \<noteq> 6 * DT"
proof (intro conjI)
  show "time_points (projr run_simulation) ! 6 = 8646911284551353 / 144115188075855872"
    by (simp add: run_simulation_def simulate_eq TOTAL_STEPS_def DT_def clock_at_6)
  show "time_axis (projr run_particle_simulation) ! 6 = 8646911284551353 / 144115188075855872"
    by (simp add: run_particle_simulation_def particle_simulate_eq total_steps_def sim_dt_def
        clock_at_6)
  show "8646911284551353 / 144115188075855872 \<noteq> 6 * f64_round DT"
    by (simp add: DT_def f64_DT)
  show "8646911284551353 / 144115188075855872 \<noteq> f64_mul 6 (f64_round DT)"
    by (simp add: DT_def f64_DT f64_mul_def six_DT)
  show "8646911284551353 / 144115188075855872 \<noteq> 6 * DT"
    by (simp add: DT_def)
qed

text \<open>
  Claim C4, amended. A run of \<open>n\<close> iterations, in either script, returns three sequences
  of length \<open>n\<close>. The time at index \<open>i\<close> is the clock after \<open>i\<close> iterations: 0 followed
  by \<open>i\<close> float64 additions of the float64 step (in exact arithmetic that sum would be
  \<open>i * dt\<close>). The positions at index \<open>i\<close> are the state after exactly \<open>i\<close> iterations, so
  index 0 holds the start position and the state after the last iteration is in no sample.
\<close>

theorem trajectory_samples:
  assumes "\<bar>dt\<bar> \<le> 1" and "n \<le> 1000000"
  shows "(\<exists>s. simulate n dt x0 = Inr s \<and>
        length (time_points s) = n \<and> length (hist_std s) = n \<and> length (hist_itlt s) = n \<and>
        (\<forall>i<n. time_points s ! i = ((\<lambda>t. f64_add t (f64_round dt)) ^^ i) 0 \<and>
           (\<exists>si. simulate i dt x0 = Inr si \<and> t_now si = time_points s ! i \<and>
                 state_std si = [hist_std s ! i] \<and> state_itlt si = [hist_itlt s ! i])) \<and>
        (0 < n \<longrightarrow> time_points s ! 0 = 0 \<and> hist_std s ! 0 = x0 \<and> hist_itlt s ! 0 = x0)) \<and>
   (\<exists>s. particle_simulate n dt x0 = Inr s \<and>
        length (time_axis s) = n \<and> length (dist_classical s) = n \<and> length (dist_itlt s) = n \<and>
        (\<forall>i<n. time_axis s ! i = ((\<lambda>t. f64_add t (f64_round dt)) ^^ i) 0 \<and>
           (\<exists>si. particle_simulate i dt x0 = Inr si \<and> t_cur si = time_axis s ! i \<and>
                 x_class si = dist_classical s ! i \<and> x_itlt si = dist_itlt s ! i)) \<and>
        (0 < n \<longrightarrow> time_axis s ! 0 = 0 \<and> dist_classical s ! 0 = x0 \<and> dist_itlt s ! 0 = x0)) \<and>
   ((\<lambda>t. t + dt) ^^ n) 0 = real n * dt"
proof -
  have "((\<lambda>t. t + dt) ^^ k) 0 = real k * dt" for k
    by (induction k) (simp_all add: algebra_simps)
  thus ?thesis by (simp add: simulate_eq particle_simulate_eq clock_step_funpow)
qed

theorem trajectory_samples_witness:
  "(\<exists>s. run_simulation = Inr s \<and> length (hist_itlt s) = 3000 \<and>
        time_points s ! 1 = f64_round DT \<and> hist_std s ! 0 = 5) \<and>
   (\<exists>s. run_particle_simulation = Inr s \<and> length (dist_itlt s) = 2000 \<and>
        time_axis s ! 1 = f64_round sim_dt \<and> dist_classical s ! 0 = 5)"
proof -
  have d: "\<bar>DT\<bar> \<le> 1" "\<bar>sim_dt\<bar> \<le> 1" by (simp_all add: DT_def sim_dt_def)
  from trajectory_samples [of DT 3000 5] d obtain s where
    s: "simulate 3000 DT 5 = Inr s" "length (hist_itlt s) = 3000"
       "\<forall>i<3000. time_points s ! i = ((\<lambda>t. f64_add t (f64_round DT)) ^^ i) 0"
       "hist_std s ! 0 = 5"
    by auto
  from trajectory_samples [of sim_dt 2000 5] d obtain p where
    p: "particle_simulate 2000 sim_dt 5 = Inr p" "length (dist_itlt p) = 2000"
       "\<forall>i<2000. time_axis p ! i = ((\<lambda>t. f64_add t (f64_round sim_dt)) ^^ i) 0"
       "dist_classical p ! 0 = 5"
    by auto
  have "time_points s ! 1 = ((\<lambda>t. f64_add t (f64_round DT)) ^^ 1) 0" using s(3) by force
  hence a: "time_points s ! 1 = f64_round DT" by (simp add: f64_add_def DT_def f64_DT clock_1)
  have "time_axis p ! 1 = ((\<lambda>t. f64_add t (f64_round sim_dt)) ^^ 1) 0" using p(3) by force
  hence b: "time_axis p ! 1 = f64_round sim_dt"
    by (simp add: f64_add_def sim_dt_def f64_DT clock_1)
  show ?thesis using s p a b
    by (simp add: run_simulation_def run_particle_simulation_def TOTAL_STEPS_def
        total_steps_def start_distance_def)
qed

subsection \<open>The resistance in the float64 reading\<close>

lemma f64_one: "f64_round (1) = 1"
  by (subst f64_round_scaled [of _ 52]) (simp_all add: round_even_def)

lemma f64_1e9: "f64_round (1000000000) = 1000000000"
  by (subst f64_round_scaled [of _ 23]) (simp_all add: round_even_def)

lemma f64_1e_9: "f64_round (1 / 1000000000) = 4835703278458517 / 4835703278458516698824704"
  by (subst f64_round_scaled [of _ 82]) (simp_all add: round_even_def)

lemma f64_half_neg: "f64_round (- (1 / 2)) = - (1 / 2)"
  by (subst f64_round_scaled [of _ 53]) (simp_all add: round_even_def)

lemma f64_slope_min: "f64_round (- (1 / 2000000000)) = - (4835703278458517 / 9671406556917033397649408)"
  by (subst f64_round_scaled [of _ 83]) (simp_all add: round_even_def)

lemma f64_2m27: "f64_round (1 / 134217728) = 1 / 134217728"
  by (subst f64_round_scaled [of _ 79]) (simp_all add: round_even_def)

lemma f64_2m54: "f64_round (1 / 18014398509481984) = 1 / 18014398509481984"
  by (subst f64_round_scaled [of _ 106]) (simp_all add: round_even_def)

lemma f64_near_one: "f64_round (18014398509481983 / 18014398509481984) = 1"
  by (subst f64_round_scaled [of _ 53]) (simp_all add: round_even_def)






lemma root_f64_range:
  assumes "1 < x"
  shows "0 \<le> root_f64 x \<and> root_f64 x \<le> 1 \<and>
         0 \<le> f64_sub 1 (f64_mul (f64_round (1 / x)) (f64_round (1 / x)))"
proof -
  define q where "q = f64_round (1 / x)"
  define q2 where "q2 = f64_round (q * q)"
  define r0 where "r0 = f64_round (1 - q2)"
  have "0 \<le> 1 / x" "1 / x \<le> 1" using assms by simp_all
  hence q: "0 \<le> q" "q \<le> 1"
    using f64_round_mono [of 0 "1 / x"] f64_round_mono [of "1 / x" 1]
    by (simp_all add: q_def f64_one)
  hence "0 \<le> q * q" "q * q \<le> 1" by (simp_all add: mult_le_one)
  hence q2: "0 \<le> q2" "q2 \<le> 1"
    using f64_round_mono [of 0 "q * q"] f64_round_mono [of "q * q" 1]
    by (simp_all add: q2_def f64_one)
  hence "0 \<le> 1 - q2" "1 - q2 \<le> 1" by simp_all
  hence r0: "0 \<le> r0" "r0 \<le> 1"
    using f64_round_mono [of 0 "1 - q2"] f64_round_mono [of "1 - q2" 1]
    by (simp_all add: r0_def f64_one)
  hence "0 \<le> sqrt r0" "sqrt r0 \<le> 1" by simp_all
  hence "0 \<le> f64_round (sqrt r0)" "f64_round (sqrt r0) \<le> 1"
    using f64_round_mono [of 0 "sqrt r0"] f64_round_mono [of "sqrt r0" 1]
    by (simp_all add: f64_one)
  thus ?thesis using r0(1)
    by (simp add: root_f64_def q_def q2_def r0_def f64_sub_def f64_mul_def)
qed


lemma root_f64_far:
  assumes "2 ^ 27 \<le> x"
  shows "root_f64 x = 1"
proof -
  define q where "q = f64_round (1 / x)"
  define q2 where "q2 = f64_round (q * q)"
  have x: "0 < x" using assms by (smt (verit) zero_less_power)
  have "1 / x \<le> 1 / 2 ^ 27" using assms by (intro divide_left_mono) simp_all
  hence "q \<le> 1 / 2 ^ 27" using f64_round_mono [of "1 / x" "1 / 2 ^ 27"]
    by (simp add: q_def f64_2m27)
  moreover have q0: "0 \<le> q" unfolding q_def using x by (intro f64_round_nonneg) simp
  ultimately have "q * q \<le> (1 / 2 ^ 27) * (1 / 2 ^ 27)" by (intro mult_mono) simp_all
  hence "q * q \<le> 1 / 2 ^ 54" by simp
  hence "q2 \<le> 1 / 2 ^ 54" using f64_round_mono [of "q * q" "1 / 2 ^ 54"]
    by (simp add: q2_def f64_2m54)
  moreover have "0 \<le> q2" unfolding q2_def using q0 by (intro f64_round_nonneg) simp
  ultimately have "1 - 1 / 2 ^ 54 \<le> 1 - q2" "1 - q2 \<le> 1" by simp_all
  hence "1 \<le> f64_round (1 - q2)" "f64_round (1 - q2) \<le> 1"
    using f64_round_mono [of "1 - 1 / 2 ^ 54" "1 - q2"] f64_round_mono [of "1 - q2" 1]
    by (simp_all add: f64_near_one f64_one)
  hence "f64_round (1 - q2) = 1" by simp
  thus ?thesis by (simp add: root_f64_def q_def q2_def f64_one)
qed

lemma c9_facts:
  "0 < f64_round (1 / 10 ^ 9)" "f64_round (1 / 10 ^ 9) < 1" "1 / f64_round (1 / 10 ^ 9) \<le> 10 ^ 9"
  by (simp_all add: f64_1e_9)

lemma resistance_body_f64_eq:
  assumes "L_P < x"
  shows "resistance_body_f64 x
           = Inr (f64_round (K_INV / max (root_f64 x) (f64_round (1 / 10 ^ 9))))"
proof -
  have x: "1 < x" using assms by (simp add: L_P_def)
  have x0: "x \<noteq> 0" using x by simp
  have nn: "\<not> f64_sub 1 (f64_mul (f64_round (1 / x)) (f64_round (1 / x))) < 0"
    using root_f64_range [OF x] by simp
  have m: "max (root_f64 x) (f64_round (1 / 10 ^ 9)) \<noteq> 0"
    using c9_facts(1) by (simp add: max_def)
  have cl: "(if root_f64 x < f64_round (1 / 10 ^ 9) then f64_round (1 / 10 ^ 9) else root_f64 x)
              = max (root_f64 x) (f64_round (1 / 10 ^ 9))" by (simp add: max_def)
  have r: "f64_round (sqrt (f64_sub 1 (f64_mul (f64_round (1 / x)) (f64_round (1 / x)))))
             = root_f64 x" by (simp add: root_f64_def f64_sub_def f64_mul_def)
  show ?thesis
    unfolding resistance_body_f64_def f64_div_def f64_sqrt_def L_P_def bind_result_def Let_def
    using x0 nn by (simp only: if_False sum.case r cl m)
qed

lemma get_resistance_f64_eq:
  "get_resistance_f64 x =
     (if x \<le> L_P then 10 ^ 9
      else f64_round (K_INV / max (root_f64 x) (f64_round (1 / 10 ^ 9))))"
  by (simp add: get_resistance_f64_def resistance_body_f64_eq)

lemma get_resistance_f64_bounds: "1 \<le> get_resistance_f64 x \<and> get_resistance_f64 x \<le> 10 ^ 9"
proof (cases "x \<le> L_P")
  case True
  then show ?thesis by (simp add: get_resistance_f64_eq)
next
  case False
  hence x: "1 < x" by (simp add: L_P_def)
  define m where "m = max (root_f64 x) (f64_round (1 / 10 ^ 9))"
  have lo: "f64_round (1 / 10 ^ 9) \<le> m" by (simp add: m_def)
  have hi: "m \<le> 1" using root_f64_range [OF x] c9_facts(2) by (simp add: m_def)
  have pos: "0 < m" using lo c9_facts(1) by linarith
  have "1 \<le> 1 / m" using hi pos by simp
  hence a: "1 \<le> f64_round (1 / m)" using f64_round_mono [of 1 "1 / m"] by (simp add: f64_one)
  have "1 / m \<le> 1 / f64_round (1 / 10 ^ 9)"
    using lo c9_facts(1) by (intro divide_left_mono mult_pos_pos pos) simp_all
  hence "1 / m \<le> 10 ^ 9" using c9_facts(3) by linarith
  hence b: "f64_round (1 / m) \<le> 10 ^ 9"
    using f64_round_mono [of "1 / m" "10 ^ 9"] by (simp add: f64_1e9)
  show ?thesis using False a b by (simp add: get_resistance_f64_eq K_INV_def m_def)
qed


lemma get_resistance_f64_far:
  assumes "2 ^ 27 \<le> x"
  shows "get_resistance_f64 x = K_INV"
proof -
  have "(1::real) < 2 ^ 27" by simp
  hence x: "1 < x" using assms by linarith
  have "max 1 (f64_round (1 / 10 ^ 9)) = 1" using c9_facts(2) by (simp add: max_def)
  thus ?thesis using x
    by (simp add: get_resistance_f64_eq root_f64_far [OF assms] L_P_def K_INV_def f64_one)
qed

lemma derivatives_f64_itlt:
  "\<exists>d. derivatives_f64 t (x # ys) ''itlt'' = Inr [d] \<and> - v_base \<le> d \<and> d < 0"
proof -
  define R where "R = get_resistance_f64 x"
  have R: "1 \<le> R" "R \<le> 10 ^ 9" using get_resistance_f64_bounds [of x] by (simp_all add: R_def)
  have R0: "R \<noteq> 0" "0 < R" using R(1) by simp_all
  have "- (1 / 2) / 1 \<le> - (1 / 2) / R"
    using R by (simp add: field_simps)
  hence lo: "- (1 / 2) \<le> f64_round (- (1 / 2) / R)"
    using f64_round_mono [of "- (1 / 2)" "- (1 / 2) / R"] by (simp add: f64_half_neg)
  have "- (1 / 2) / R \<le> - (1 / 2) / 10 ^ 9"
    using R R0 by (simp add: field_simps)
  hence "f64_round (- (1 / 2) / R) \<le> f64_round (- (1 / 2) / 10 ^ 9)" by (rule f64_round_mono)
  also have "\<dots> < 0" by (simp add: f64_slope_min)
  finally have hi: "f64_round (- (1 / 2) / R) < 0" .
  show ?thesis using lo hi R0(1)
    by (simp add: derivatives_f64_def f64_div_def R_def v_base_def)
qed







lemma time_resistance_body_f64_eq: "time_resistance_body_f64 x = resistance_body_f64 x"
  by (simp add: time_resistance_body_f64_def resistance_body_f64_def sim_l_p_def sim_k_inv_def
      L_P_def K_INV_def)

lemma itlt_update_f64_returns: "\<exists>x'. itlt_update_f64 dt x = Inr x'"
proof (cases "sim_l_p < x")
  case True
  hence x: "L_P < x" by (simp add: sim_l_p_def L_P_def)
  have "1 \<le> get_resistance_f64 x" using get_resistance_f64_bounds [of x] by simp
  hence "f64_round (K_INV / max (root_f64 x) (f64_round (1 / 10 ^ 9))) \<noteq> 0"
    using x by (simp add: get_resistance_f64_eq)
  thus ?thesis using True x
    by (simp add: itlt_update_f64_def time_resistance_body_f64_eq resistance_body_f64_eq
        f64_div_def Let_def)
next
  case False
  then show ?thesis by (simp add: itlt_update_f64_def)
qed

lemma rk4_step_f64_itlt_returns: "\<exists>r. rk4_step_f64 t [x] dt ''itlt'' = Inr [r]"
proof -
  obtain k1 where k1: "derivatives_f64 t [x] ''itlt'' = Inr [k1]"
    using derivatives_f64_itlt [of t x "[]"] by blast
  define y2 where "y2 = f64_add x (f64_round (f64_mul k1 dt / 2))"
  obtain k2 where k2: "derivatives_f64 (f64_add t (f64_round (dt / 2))) [y2] ''itlt'' = Inr [k2]"
    using derivatives_f64_itlt [of _ y2 "[]"] by blast
  define y3 where "y3 = f64_add x (f64_round (f64_mul k2 dt / 2))"
  obtain k3 where k3: "derivatives_f64 (f64_add t (f64_round (dt / 2))) [y3] ''itlt'' = Inr [k3]"
    using derivatives_f64_itlt [of _ y3 "[]"] by blast
  define y4 where "y4 = f64_add x (f64_mul k3 dt)"
  obtain k4 where k4: "derivatives_f64 (f64_add t dt) [y4] ''itlt'' = Inr [k4]"
    using derivatives_f64_itlt [of _ y4 "[]"] by blast
  show ?thesis
    by (simp add: rk4_step_f64_def k1 k2 [unfolded y2_def] k3 [unfolded y3_def]
        k4 [unfolded y4_def])
qed

text \<open>
  Claim C9, as stated, fails in float64: the interval is not open at 1. For \<open>x = 1e9\<close>
  the radicand \<open>1 - (L_P / x)**2\<close> rounds to 1 and \<open>get_resistance\<close> returns exactly
  \<open>K_INV = 1\<close>.
\<close>

theorem resistance_interval_counterexample:
  "get_resistance_f64 (10 ^ 9) = 1 \<and> \<not> 1 < get_resistance_f64 (10 ^ 9)"
proof -
  have "(2::real) ^ 27 \<le> 10 ^ 9" by simp
  hence "get_resistance_f64 (10 ^ 9) = K_INV" by (rule get_resistance_f64_far)
  thus ?thesis by (simp add: K_INV_def)
qed

text \<open>
  Claim C9, amended. For every \<open>x\<close> the float64 resistance is in the closed interval
  from 1 to \<open>1e9\<close>; above the boundary the \<open>try\<close> block returns without an error, in
  the RK4 script and in the Euler script, so no divisor in it is zero; the ITLT derivative
  is returned, is strictly negative and at least \<open>- v_base\<close>; and an ITLT step of either
  script returns a value.
\<close>

theorem resistance_safe:
  assumes "\<bar>x\<bar> \<le> 2 ^ 1000" and "\<bar>dt\<bar> \<le> 2 ^ 1000"
  shows "1 \<le> get_resistance_f64 x \<and> get_resistance_f64 x \<le> 10 ^ 9 \<and>
   (L_P < x \<longrightarrow> (\<exists>v. resistance_body_f64 x = Inr v)) \<and>
   (\<exists>d. derivatives_f64 t [x] ''itlt'' = Inr [d] \<and> - v_base \<le> d \<and> d < 0) \<and>
   (\<exists>r. rk4_step_f64 t [x] dt ''itlt'' = Inr [r]) \<and>
   (sim_l_p < x \<longrightarrow> (\<exists>v. time_resistance_body_f64 x = Inr v \<and> 1 \<le> v)) \<and>
   (\<exists>x'. itlt_update_f64 dt x = Inr x')"
proof (intro conjI impI)
  show "1 \<le> get_resistance_f64 x" "get_resistance_f64 x \<le> 10 ^ 9"
    using get_resistance_f64_bounds [of x] by simp_all
  show "\<exists>d. derivatives_f64 t [x] ''itlt'' = Inr [d] \<and> - v_base \<le> d \<and> d < 0"
    by (rule derivatives_f64_itlt)
  show "\<exists>r. rk4_step_f64 t [x] dt ''itlt'' = Inr [r]" by (rule rk4_step_f64_itlt_returns)
  show "\<exists>x'. itlt_update_f64 dt x = Inr x'" by (rule itlt_update_f64_returns)
next
  assume "L_P < x"
  thus "\<exists>v. resistance_body_f64 x = Inr v" by (simp add: resistance_body_f64_eq)
next
  assume "sim_l_p < x"
  hence x: "L_P < x" by (simp add: sim_l_p_def L_P_def)
  have "1 \<le> get_resistance_f64 x" using get_resistance_f64_bounds [of x] by simp
  thus "\<exists>v. time_resistance_body_f64 x = Inr v \<and> 1 \<le> v"
    using x by (simp add: time_resistance_body_f64_eq resistance_body_f64_eq
        get_resistance_f64_eq)
qed

theorem resistance_safe_witness:
  "L_P < 5 \<and> sim_l_p < 5 \<and> 1 \<le> get_resistance_f64 5 \<and>
   (\<exists>v. resistance_body_f64 5 = Inr v) \<and> (\<exists>v. time_resistance_body_f64 5 = Inr v \<and> 1 \<le> v)"
  using resistance_safe [of 5 "f64_round DT" 0] by (simp add: L_P_def sim_l_p_def DT_def f64_DT)

subsection \<open>The sampler's dilation in the float64 reading\<close>












subsection \<open>The enclosure is sound\<close>

lemma euler_step_enclosed:
  fixes l h x a b c d :: real
  assumes l: "1 < l" and lx: "l \<le> x" and xh: "x \<le> h"
    and c: "1 / l \<le> c" and ac: "a ^ 2 + c ^ 2 \<le> 1"
    and d0: "0 \<le> d" and d: "d \<le> 1 / h" and bd: "1 \<le> b ^ 2 + d ^ 2"
    and b0: "0 \<le> b" and bc: "1 / 10 ^ 9 \<le> b"
  shows "l - b / 200 \<le> euler_itlt (1 / 100) x \<and> euler_itlt (1 / 100) x \<le> h - a / 200"
proof -
  have x: "1 < x" and h: "1 < h" using l lx xh by simp_all
  let ?r = "1 - (1 / x) ^ 2"
  have "1 / x \<le> c" using l lx c by (meson frac_le order_trans zero_le_one less_trans zero_less_one order_refl)
  hence "(1 / x) ^ 2 \<le> c ^ 2" using x by (intro power_mono) simp_all
  hence "a ^ 2 \<le> ?r" using ac by linarith
  hence lo: "a \<le> sqrt ?r" by (rule real_le_rsqrt)
  have "1 / h \<le> 1 / x" using x xh by (simp add: frac_le)
  hence "d \<le> 1 / x" using d by linarith
  hence "d ^ 2 \<le> (1 / x) ^ 2" using d0 by (intro power_mono) simp_all
  hence "?r \<le> b ^ 2" using bd by linarith
  hence sb: "sqrt ?r \<le> b" using b0 by (intro real_le_lsqrt) simp_all
  define m where "m = max (sqrt ?r) (1 / 10 ^ 9)"
  have hi: "m \<le> b" using sb bc by (simp add: m_def)
  have lo': "a \<le> m" using lo by (simp add: m_def)
  have "euler_itlt (1 / 100) x = x - m / 200"
    unfolding m_def using x by (simp add: euler_itlt_def sim_l_p_def sim_k_inv_def v_infall_def)
  thus ?thesis using lo' hi lx xh by simp
qed

lemma step_sound:
  assumes ok: "step_ok L H c d L' H'"
    and lo: "real_of_int L \<le> real_of_int SCALE * x"
    and hi: "real_of_int SCALE * x \<le> real_of_int H"
  shows "real_of_int L' \<le> real_of_int SCALE * euler_itlt (1 / 100) x \<and>
         real_of_int SCALE * euler_itlt (1 / 100) x \<le> real_of_int H'"
proof -
  define S where "S = real_of_int SCALE"
  define rl where "rl = real_of_int L"
  define rh where "rh = real_of_int H"
  define rc where "rc = real_of_int c"
  define rd where "rd = real_of_int d"
  define A where "A = 200 * (real_of_int H - real_of_int H')"
  define B where "B = 200 * (real_of_int L - real_of_int L')"
  have S: "0 < S" by (simp add: S_def SCALE_def)
  have S2: "real_of_int SCALE2 = S * S" by (simp add: S_def SCALE_def SCALE2_def)
  from ok have i: "SCALE < L" "L \<le> H" "H' \<le> H" "0 \<le> d" "CLAMP \<le> 200 * (L - L')"
    "SCALE2 \<le> c * L" "d * H \<le> SCALE2"
    "(200 * (H - H')) * (200 * (H - H')) + c * c \<le> SCALE2"
    "SCALE2 \<le> (200 * (L - L')) * (200 * (L - L')) + d * d"
    by (simp_all add: step_ok_def)
  have e1: "rc * rl = real_of_int (c * L)" by (simp add: rc_def rl_def)
  have e2: "rd * rh = real_of_int (d * H)" by (simp add: rd_def rh_def)
  have e3: "A * A + rc * rc = real_of_int ((200 * (H - H')) * (200 * (H - H')) + c * c)"
    by (simp add: A_def rc_def)
  have e4: "B * B + rd * rd = real_of_int ((200 * (L - L')) * (200 * (L - L')) + d * d)"
    by (simp add: B_def rd_def)
  have r1: "S * S \<le> rc * rl" using i(6) by (simp only: e1 S2 [symmetric] of_int_le_iff)
  have r2: "rd * rh \<le> S * S" using i(7) by (simp only: e2 S2 [symmetric] of_int_le_iff)
  have r3: "A * A + rc * rc \<le> S * S" using i(8) by (simp only: e3 S2 [symmetric] of_int_le_iff)
  have r4: "S * S \<le> B * B + rd * rd" using i(9) by (simp only: e4 S2 [symmetric] of_int_le_iff)
  have Sl: "S < rl" using i(1) by (simp add: S_def rl_def)
  have lh: "rl \<le> rh" using i(2) by (simp add: rl_def rh_def)
  have rl0: "0 < rl" and rh0: "0 < rh" using S Sl lh by simp_all
  have A0: "0 \<le> A" using i(3) by (simp add: A_def)
  have d0: "0 \<le> rd" using i(4) by (simp add: rd_def)
  have "real_of_int CLAMP \<le> real_of_int (200 * (L - L'))" using i(5) by (simp only: of_int_le_iff)
  hence Bc: "5 \<le> B" by (simp add: B_def CLAMP_def)
  have l1: "1 < rl / S" using S Sl by simp
  have lx: "rl / S \<le> x" using lo S by (simp add: S_def rl_def pos_divide_le_eq mult.commute)
  have xh: "x \<le> rh / S" using hi S by (simp add: S_def rh_def pos_le_divide_eq mult.commute)
  have c1: "1 / (rl / S) \<le> rc / S"
  proof -
    have "1 / (rl / S) = S * S / (rl * S)" using S by simp
    also have "\<dots> \<le> rc * rl / (rl * S)" using r1 S rl0 by (intro divide_right_mono) simp_all
    also have "\<dots> = rc / S" using rl0 by simp
    finally show ?thesis .
  qed
  have c2: "(A / S) ^ 2 + (rc / S) ^ 2 \<le> 1"
  proof -
    have "(A / S) ^ 2 + (rc / S) ^ 2 = (A * A + rc * rc) / (S * S)"
      by (simp add: power2_eq_square add_divide_distrib)
    also have "\<dots> \<le> S * S / (S * S)" using r3 S by (intro divide_right_mono) simp_all
    also have "\<dots> = 1" using S by simp
    finally show ?thesis .
  qed
  have c3: "0 \<le> rd / S" using d0 S by simp
  have c4: "rd / S \<le> 1 / (rh / S)"
  proof -
    have "rd / S = rd * rh / (rh * S)" using rh0 by simp
    also have "\<dots> \<le> S * S / (rh * S)" using r2 S rh0 by (intro divide_right_mono) simp_all
    also have "\<dots> = 1 / (rh / S)" using S by simp
    finally show ?thesis .
  qed
  have c5: "1 \<le> (B / S) ^ 2 + (rd / S) ^ 2"
  proof -
    have "1 = S * S / (S * S)" using S by simp
    also have "\<dots> \<le> (B * B + rd * rd) / (S * S)" using r4 S by (intro divide_right_mono) simp_all
    also have "\<dots> = (B / S) ^ 2 + (rd / S) ^ 2"
      by (simp add: power2_eq_square add_divide_distrib)
    finally show ?thesis .
  qed
  have c6: "0 \<le> B / S" using Bc S by simp
  have "1 / 10 ^ 9 \<le> 5 / S" by (simp add: S_def SCALE_def)
  also have "\<dots> \<le> B / S" using Bc S by (intro divide_right_mono) simp_all
  finally have c7: "1 / 10 ^ 9 \<le> B / S" .
  from euler_step_enclosed [OF l1 lx xh c1 c2 c3 c4 c5 c6 c7]
  have r: "rl / S - B / S / 200 \<le> euler_itlt (1 / 100) x"
          "euler_itlt (1 / 100) x \<le> rh / S - A / S / 200" by simp_all
  have "real_of_int L' = S * (rl / S - B / S / 200)"
    using S by (simp add: B_def rl_def field_simps)
  also have "\<dots> \<le> S * euler_itlt (1 / 100) x" using r(1) S by (intro mult_left_mono) simp_all
  finally have g1: "real_of_int L' \<le> S * euler_itlt (1 / 100) x" .
  have "S * euler_itlt (1 / 100) x \<le> S * (rh / S - A / S / 200)"
    using r(2) S by (intro mult_left_mono) simp_all
  also have "\<dots> = real_of_int H'" using S by (simp add: A_def rh_def field_simps)
  finally have g2: "S * euler_itlt (1 / 100) x \<le> real_of_int H'" .
  show ?thesis using g1 g2 by (simp add: S_def)
qed

lemma chain_sound:
  "chain_ok es fin \<Longrightarrow> es \<noteq> [] \<Longrightarrow>
   real_of_int (fst (hd es)) \<le> real_of_int SCALE * x \<Longrightarrow>
   real_of_int SCALE * x \<le> real_of_int (fst (snd (hd es))) \<Longrightarrow>
   real_of_int (fst fin) \<le> real_of_int SCALE * (euler_itlt (1 / 100) ^^ length es) x \<and>
   real_of_int SCALE * (euler_itlt (1 / 100) ^^ length es) x \<le> real_of_int (snd fin)"
proof (induction es fin arbitrary: x rule: chain_ok.induct)
  case (1 fin)
  then show ?case by simp
next
  case (2 L H c d L' H')
  then show ?case using step_sound [of L H c d L' H' x] by simp
next
  case (3 L H c d L' H' c' d' rest fin)
  from "3.prems"(1) have ok: "step_ok L H c d L' H'"
    and ch: "chain_ok ((L', H', c', d') # rest) fin" by simp_all
  have s: "real_of_int L' \<le> real_of_int SCALE * euler_itlt (1 / 100) x \<and>
           real_of_int SCALE * euler_itlt (1 / 100) x \<le> real_of_int H'"
    using step_sound [OF ok] "3.prems"(3,4) by simp
  have "real_of_int (fst fin)
          \<le> real_of_int SCALE * (euler_itlt (1 / 100) ^^ length ((L', H', c', d') # rest))
                (euler_itlt (1 / 100) x) \<and>
        real_of_int SCALE * (euler_itlt (1 / 100) ^^ length ((L', H', c', d') # rest))
                (euler_itlt (1 / 100) x) \<le> real_of_int (snd fin)"
    using s by (intro "3.IH" [OF ch]) simp_all
  thus ?case by (simp add: funpow_swap1)
qed

lemma enclosure_1_ok: "chain_ok enclosure_1 (16353532107, 16353532355)"
  unfolding enclosure_1_def by (simp add: step_ok_def SCALE_def SCALE2_def CLAMP_def)

lemma enclosure_1_ends:
  "enclosure_1 \<noteq> []" "length enclosure_1 = 245"
  "fst (hd enclosure_1) = 21474836480" "fst (snd (hd enclosure_1)) = 21474836480"
  by (simp_all add: enclosure_1_def)

lemma enclosure_2_ok: "chain_ok enclosure_2 (11360822899, 11360823408)"
  unfolding enclosure_2_def by (simp add: step_ok_def SCALE_def SCALE2_def CLAMP_def)

lemma enclosure_2_ends:
  "enclosure_2 \<noteq> []" "length enclosure_2 = 245"
  "fst (hd enclosure_2) = 16353532107" "fst (snd (hd enclosure_2)) = 16353532355"
  by (simp_all add: enclosure_2_def)

lemma enclosure_3_ok: "chain_ok enclosure_3 (6786437524, 6786438401)"
  unfolding enclosure_3_def by (simp add: step_ok_def SCALE_def SCALE2_def CLAMP_def)

lemma enclosure_3_ends:
  "enclosure_3 \<noteq> []" "length enclosure_3 = 245"
  "fst (hd enclosure_3) = 11360822899" "fst (snd (hd enclosure_3)) = 11360823408"
  by (simp_all add: enclosure_3_def)

lemma enclosure_4_ok: "chain_ok enclosure_4 (4294874639, 4294965812)"
  unfolding enclosure_4_def by (simp add: step_ok_def SCALE_def SCALE2_def CLAMP_def)

lemma enclosure_4_ends:
  "enclosure_4 \<noteq> []" "length enclosure_4 = 242"
  "fst (hd enclosure_4) = 6786437524" "fst (snd (hd enclosure_4)) = 6786438401"
  by (simp_all add: enclosure_4_def)

text \<open>
  The four tables chain up: the start position 5 lies in the first row, and after 977
  iterations the position is at most \<open>4294965812 / 2^32\<close>, which is less than 1.
\<close>

lemma euler_below_boundary: "(euler_itlt (1 / 100) ^^ 977) 5 < 1"
proof -
  define f where "f = euler_itlt (1 / 100)"
  define x1 where "x1 = (f ^^ 245) 5"
  define x2 where "x2 = (f ^^ 245) x1"
  define x3 where "x3 = (f ^^ 245) x2"
  define x4 where "x4 = (f ^^ 242) x3"
  have b1: "16353532107 \<le> 4294967296 * x1 \<and> 4294967296 * x1 \<le> 16353532355"
    using chain_sound [OF enclosure_1_ok enclosure_1_ends(1), of 5]
    by (simp add: enclosure_1_ends SCALE_def x1_def f_def)
  have b2: "11360822899 \<le> 4294967296 * x2 \<and> 4294967296 * x2 \<le> 11360823408"
    using chain_sound [OF enclosure_2_ok enclosure_2_ends(1), of x1] b1
    by (simp add: enclosure_2_ends SCALE_def x2_def f_def)
  have b3: "6786437524 \<le> 4294967296 * x3 \<and> 4294967296 * x3 \<le> 6786438401"
    using chain_sound [OF enclosure_3_ok enclosure_3_ends(1), of x2] b2
    by (simp add: enclosure_3_ends SCALE_def x3_def f_def)
  have b4: "4294874639 \<le> 4294967296 * x4 \<and> 4294967296 * x4 \<le> 4294965812"
    using chain_sound [OF enclosure_4_ok enclosure_4_ends(1), of x3] b3
    by (simp add: enclosure_4_ends SCALE_def x4_def f_def)
  have "(f ^^ 977) 5 = x4"
    by (simp add: x4_def x3_def x2_def x1_def funpow_add [symmetric, THEN fun_cong, unfolded o_apply])
  thus ?thesis using b4 by (simp add: f_def)
qed

lemma script_sample_977:
  assumes "run_particle_simulation = Inr p"
  shows "dist_itlt p ! 977 < sim_l_p" and "dist_itlt p ! 978 = sim_l_p"
proof -
  have p: "particle_simulate 2000 (1 / 100) 5 = Inr p"
    using assms by (simp add: run_particle_simulation_def total_steps_def sim_dt_def
        start_distance_def)
  have a: "dist_itlt p ! 977 = (euler_itlt (1 / 100) ^^ 977) 5"
    using particle_samples [OF _ p, of 977] by simp
  have "dist_itlt p ! 978 = (euler_itlt (1 / 100) ^^ Suc 977) 5"
    using particle_samples [OF _ p, of 978] by simp
  hence b: "dist_itlt p ! 978 = euler_itlt (1 / 100) (dist_itlt p ! 977)"
    by (simp only: a funpow.simps o_apply)
  show lt: "dist_itlt p ! 977 < sim_l_p"
    unfolding a using euler_below_boundary by (simp add: sim_l_p_def)
  show "dist_itlt p ! 978 = sim_l_p" using lt by (simp add: b euler_itlt_def)
qed

text \<open>
  Claim C2 fails on itlt\_simulation.py. In the run the script makes (start position 5,
  step size 0.01, 2000 iterations) the ITLT sample recorded at index 977 is below the
  boundary length. In the same run started at \<open>1 + 2^-17\<close>, which is above the boundary,
  the ITLT sample at index 1 is below the boundary length and the Standard sample at index
  201 is negative. This script tests the position only before the step, and records the
  overshoot on the next iteration before it resets it.
\<close>

theorem particle_run_leaves_bounds:
  "(\<exists>p. run_particle_simulation = Inr p \<and> sim_l_p < start_distance \<and>
        dist_itlt p ! 977 < sim_l_p) \<and>
   (\<exists>p. particle_simulate total_steps sim_dt (131073 / 131072) = Inr p \<and>
        sim_l_p < 131073 / 131072 \<and>
        dist_itlt p ! 1 < sim_l_p \<and> dist_classical p ! 201 < 0)"
proof
  obtain q where q: "run_particle_simulation = Inr q"
    by (simp add: run_particle_simulation_def particle_simulate_eq)
  show "\<exists>p. run_particle_simulation = Inr p \<and> sim_l_p < start_distance \<and>
        dist_itlt p ! 977 < sim_l_p"
  proof -
    have "sim_l_p < start_distance" by (simp add: sim_l_p_def start_distance_def)
    with q script_sample_977(1) [OF q] show ?thesis by blast
  qed
next
  obtain p where p: "particle_simulate total_steps sim_dt (131073 / 131072) = Inr p"
    by (simp add: particle_simulate_eq)
  have a: "dist_itlt p ! 1 = (euler_itlt sim_dt ^^ 1) (131073 / 131072)"
    using particle_samples [OF _ p, of 1] by (simp add: total_steps_def)
  have b: "dist_classical p ! 201 = (classical_update sim_dt ^^ 201) (131073 / 131072)"
    using particle_samples [OF _ p, of 201] by (simp add: total_steps_def)
  have "dist_itlt p ! 1 < sim_l_p" unfolding a by (rule euler_at_1)
  moreover have "dist_classical p ! 201 < 0" unfolding b classical_at_201 by simp
  ultimately show "\<exists>p. particle_simulate total_steps sim_dt (131073 / 131072) = Inr p \<and>
        sim_l_p < 131073 / 131072 \<and>
        dist_itlt p ! 1 < sim_l_p \<and> dist_classical p ! 201 < 0"
    using p by (simp add: sim_l_p_def)
qed

text \<open>
  Claim C5 fails on itlt\_simulation.py, in the same runs: after a sample below the bound
  the next iteration resets the position to the bound, so the recorded sequence goes up.
  In the run the script makes, the ITLT sequence rises from index 977 to index 978; in the
  run started at \<open>1 + 2^-17\<close> the ITLT sequence rises from index 1 to index 2 and the
  Standard sequence from index 201 to index 202.
\<close>

theorem particle_run_rebounds:
  "(\<exists>p. run_particle_simulation = Inr p \<and> dist_itlt p ! 977 < dist_itlt p ! 978) \<and>
   (\<exists>p. particle_simulate total_steps sim_dt (131073 / 131072) = Inr p \<and>
        dist_itlt p ! 1 < dist_itlt p ! 2 \<and>
        dist_classical p ! 201 < dist_classical p ! 202)"
proof
  obtain q where q: "run_particle_simulation = Inr q"
    by (simp add: run_particle_simulation_def particle_simulate_eq)
  show "\<exists>p. run_particle_simulation = Inr p \<and> dist_itlt p ! 977 < dist_itlt p ! 978"
  proof -
    from script_sample_977 [OF q] have "dist_itlt q ! 977 < dist_itlt q ! 978" by simp
    with q show ?thesis by blast
  qed
next
  obtain p where p: "particle_simulate total_steps sim_dt (131073 / 131072) = Inr p"
    by (simp add: particle_simulate_eq)
  have a1: "dist_itlt p ! 1 = (euler_itlt sim_dt ^^ 1) (131073 / 131072)"
    using particle_samples [OF _ p, of 1] by (simp add: total_steps_def)
  have "dist_itlt p ! 2 = (euler_itlt sim_dt ^^ Suc 1) (131073 / 131072)"
    using particle_samples [OF _ p, of 2] by (simp add: total_steps_def numeral_2_eq_2)
  hence a2: "dist_itlt p ! 2 = euler_itlt sim_dt (dist_itlt p ! 1)"
    by (simp only: a1 funpow.simps o_apply)
  have lt1: "dist_itlt p ! 1 < sim_l_p" unfolding a1 by (rule euler_at_1)
  hence "dist_itlt p ! 2 = sim_l_p" by (simp add: a2 euler_itlt_def)
  hence r1: "dist_itlt p ! 1 < dist_itlt p ! 2" using lt1 by simp
  have b1: "dist_classical p ! 201 = (classical_update sim_dt ^^ 201) (131073 / 131072)"
    using particle_samples [OF _ p, of 201] by (simp add: total_steps_def)
  have "dist_classical p ! 202 = (classical_update sim_dt ^^ Suc 201) (131073 / 131072)"
    using particle_samples [OF _ p, of 202] by (simp add: total_steps_def)
  hence b2: "dist_classical p ! 202 = classical_update sim_dt (dist_classical p ! 201)"
    by (simp only: b1 funpow.simps o_apply)
  have lt2: "dist_classical p ! 201 < 0" unfolding b1 classical_at_201 by simp
  hence "dist_classical p ! 202 = 0" by (simp add: b2 classical_update_def)
  hence r2: "dist_classical p ! 201 < dist_classical p ! 202" using lt2 by simp
  show "\<exists>p. particle_simulate total_steps sim_dt (131073 / 131072) = Inr p \<and>
        dist_itlt p ! 1 < dist_itlt p ! 2 \<and>
        dist_classical p ! 201 < dist_classical p ! 202"
    using p r1 r2 by simp
qed

end
